theory Spec2Isabelle
  imports Main "HOL-Library.Word"
begin

section \<open>The query submitter of CEREBRO's frontend (\<^verbatim>\<open>src/frontend/main.js\<close>)\<close>

text \<open>
  The repository is one asynchronous JavaScript function, \<^verbatim>\<open>askCerebro\<close>. It reads the
  text of the input element \<^verbatim>\<open>#query\<close>, posts it to a local HTTP endpoint and writes the
  parsed JSON answer into the page. The embedding below follows the function statement
  by statement. What the function touches outside itself is made explicit:
  \<^item> the page, as a record holding the properties of the elements the function reads
    or writes;
  \<^item> the network, as the list of requests handed to \<^verbatim>\<open>fetch\<close> and a function that gives
    the outcome of each request;
  \<^item> the console, as the list of values handed to \<^verbatim>\<open>console.error\<close>;
  \<^item> exceptions, as values of a sum type: the \<^verbatim>\<open>try\<close> block is a function that either
    completes or throws, in both cases with the page as it is at that moment.
\<close>

subsection \<open>Strings\<close>

text \<open>
  A JavaScript string is a sequence of 16-bit code units. Literals of the source are
  written with \<open>js\<close>, which maps each character of an ASCII literal to its code unit.
\<close>

type_synonym jsstring = "16 word list"

definition js :: "string \<Rightarrow> jsstring" where
  "js s = map (\<lambda>c. word_of_nat (of_char c)) s"

text \<open>
  \<^verbatim>\<open>String.prototype.trim\<close> removes white space and line terminators from both ends.
  White space is TAB, VT, FF, SP, NBSP, ZWNBSP and the code points of category
  \<^verbatim>\<open>Space_Separator\<close>; the line terminators are LF, CR, LS and PS. All of them are
  single code units.
\<close>

definition WhiteSpace :: "16 word \<Rightarrow> bool" where
  "WhiteSpace c \<longleftrightarrow>
     c = 0x0009 \<or> c = 0x000B \<or> c = 0x000C \<or> c = 0x0020 \<or> c = 0x00A0 \<or> c = 0xFEFF \<or>
     c = 0x1680 \<or> (0x2000 \<le> c \<and> c \<le> 0x200A) \<or> c = 0x202F \<or> c = 0x205F \<or> c = 0x3000"

definition LineTerminator :: "16 word \<Rightarrow> bool" where
  "LineTerminator c \<longleftrightarrow> c = 0x000A \<or> c = 0x000D \<or> c = 0x2028 \<or> c = 0x2029"

definition trimmable :: "16 word \<Rightarrow> bool" where
  "trimmable c \<longleftrightarrow> WhiteSpace c \<or> LineTerminator c"

definition trim :: "jsstring \<Rightarrow> jsstring" where
  "trim s = rev (dropWhile trimmable (rev (dropWhile trimmable s)))"

subsection \<open>Values and exceptions\<close>

text \<open>
  The values that \<^verbatim>\<open>res.json()\<close> can produce, and \<^verbatim>\<open>undefined\<close>, which reading an
  absent property produces. A Number is represented by the string that the
  number-to-string conversion of the language gives for it (\<^verbatim>\<open>0.12\<close> by \<open>js ''0.12''\<close>):
  that string identifies the Number up to the sign of zero, and the function observes
  a Number only through this conversion and through its truth value. An object is the
  list of its own properties, with distinct keys.
\<close>

datatype jsval =
    Undefined
  | Null
  | Bool bool
  | Num jsstring
  | Str jsstring
  | Arr "jsval list"
  | Obj "(jsstring \<times> jsval) list"

text \<open>
  What can be thrown and caught here: the TypeError of a failed property read, method
  call or conversion and of a \<^verbatim>\<open>fetch\<close> that cannot reach the server, the SyntaxError of
  a body that is not JSON, and the DOMException of an aborted request. The string is
  the message, for the reader only: engines word it differently, and the function hands
  the exception to \<^verbatim>\<open>console.error\<close> without looking at it.
\<close>

datatype js_error =
    TypeError string
  | SyntaxError string
  | DOMException string

text \<open>\<^verbatim>\<open>ToBoolean\<close>, the test of \<^verbatim>\<open>if (data.error)\<close> and of \<^verbatim>\<open>if (!query)\<close>.\<close>

fun ToBoolean :: "jsval \<Rightarrow> bool" where
  "ToBoolean Undefined = False"
| "ToBoolean Null = False"
| "ToBoolean (Bool b) = b"
| "ToBoolean (Num n) = (n \<noteq> js ''0'' \<and> n \<noteq> js ''NaN'')"
| "ToBoolean (Str s) = (s \<noteq> [])"
| "ToBoolean (Arr xs) = True"
| "ToBoolean (Obj kvs) = True"

text \<open>
  \<^verbatim>\<open>ToString\<close>, applied by a template literal and by the setter of \<^verbatim>\<open>innerText\<close>, and
  \<^verbatim>\<open>Array.prototype.join\<close>. An array converts by joining its elements with a comma;
  \<^verbatim>\<open>join\<close> converts \<^verbatim>\<open>undefined\<close> and \<^verbatim>\<open>null\<close> elements to the empty string. A parsed
  object has no callable property of its own, so it converts through
  \<^verbatim>\<open>Object.prototype.toString\<close>, unless it has an own property \<^verbatim>\<open>toString\<close>: that
  property shadows the inherited method, is not callable, the inherited \<^verbatim>\<open>valueOf\<close>
  returns the object itself, and the conversion throws a TypeError.
\<close>

fun ToString :: "jsval \<Rightarrow> js_error + jsstring"
  and join :: "jsstring \<Rightarrow> jsval list \<Rightarrow> js_error + jsstring"
  and element_text :: "jsval \<Rightarrow> js_error + jsstring"
where
  "ToString Undefined = Inr (js ''undefined'')"
| "ToString Null = Inr (js ''null'')"
| "ToString (Bool b) = Inr (if b then js ''true'' else js ''false'')"
| "ToString (Num n) = Inr n"
| "ToString (Str s) = Inr s"
| "ToString (Arr xs) = join (js '','') xs"
| "ToString (Obj kvs) =
     (if js ''toString'' \<in> fst ` set kvs
      then Inl (TypeError ''Cannot convert object to primitive value'')
      else Inr (js ''[object Object]''))"
| "join sep [] = Inr []"
| "join sep [x] = element_text x"
| "join sep (x # y # ys) =
     (case element_text x of
        Inl e \<Rightarrow> Inl e
      | Inr a \<Rightarrow> (case join sep (y # ys) of
                   Inl e \<Rightarrow> Inl e
                 | Inr b \<Rightarrow> Inr (a @ sep @ b)))"
| "element_text Undefined = Inr []"
| "element_text Null = Inr []"
| "element_text (Bool b) = ToString (Bool b)"
| "element_text (Num n) = ToString (Num n)"
| "element_text (Str s) = ToString (Str s)"
| "element_text (Arr xs) = ToString (Arr xs)"
| "element_text (Obj kvs) = ToString (Obj kvs)"

text \<open>
  Reading a property of the parsed body. Reading from \<^verbatim>\<open>null\<close> or \<^verbatim>\<open>undefined\<close> throws;
  a property that an object does not have, and any property of this kind read from a
  boolean, a number, a string or an array, is \<^verbatim>\<open>undefined\<close>. This is the behaviour for
  names that no prototype defines, which holds for the six names the function reads
  (\<^verbatim>\<open>error\<close>, \<^verbatim>\<open>response\<close>, \<^verbatim>\<open>mode\<close>, \<^verbatim>\<open>domain_used\<close>, \<^verbatim>\<open>sources_used\<close>,
  \<^verbatim>\<open>duration_secs\<close>).
\<close>

fun Get :: "jsval \<Rightarrow> jsstring \<Rightarrow> js_error + jsval" where
  "Get Undefined k = Inl (TypeError ''Cannot read properties of undefined'')"
| "Get Null k = Inl (TypeError ''Cannot read properties of null'')"
| "Get (Obj kvs) k = Inr (case map_of kvs k of None \<Rightarrow> Undefined | Some v \<Rightarrow> v)"
| "Get (Bool b) k = Inr Undefined"
| "Get (Num n) k = Inr Undefined"
| "Get (Str s) k = Inr Undefined"
| "Get (Arr xs) k = Inr Undefined"

text \<open>
  The two method calls of the source, \<^verbatim>\<open>data.mode.toUpperCase()\<close> and
  \<^verbatim>\<open>data.sources_used.join(", ")\<close>. Only a string has \<^verbatim>\<open>toUpperCase\<close> and only an array
  has \<^verbatim>\<open>join\<close>; on every other value the call throws a TypeError (the receiver is
  \<^verbatim>\<open>undefined\<close> or \<^verbatim>\<open>null\<close>, or the property read is not a function). The case mapping
  of \<^verbatim>\<open>toUpperCase\<close> is a table of the language runtime (the Unicode case conversion);
  it is a parameter of the model.
\<close>

fun call_toUpperCase :: "(jsstring \<Rightarrow> jsstring) \<Rightarrow> jsval \<Rightarrow> js_error + jsstring" where
  "call_toUpperCase upper (Str s) = Inr (upper s)"
| "call_toUpperCase upper Undefined = Inl (TypeError ''Cannot read properties of undefined'')"
| "call_toUpperCase upper Null = Inl (TypeError ''Cannot read properties of null'')"
| "call_toUpperCase upper (Bool b) = Inl (TypeError ''toUpperCase is not a function'')"
| "call_toUpperCase upper (Num n) = Inl (TypeError ''toUpperCase is not a function'')"
| "call_toUpperCase upper (Arr xs) = Inl (TypeError ''toUpperCase is not a function'')"
| "call_toUpperCase upper (Obj kvs) = Inl (TypeError ''toUpperCase is not a function'')"

fun call_join :: "jsval \<Rightarrow> jsstring \<Rightarrow> js_error + jsstring" where
  "call_join (Arr xs) sep = join sep xs"
| "call_join Undefined sep = Inl (TypeError ''Cannot read properties of undefined'')"
| "call_join Null sep = Inl (TypeError ''Cannot read properties of null'')"
| "call_join (Bool b) sep = Inl (TypeError ''join is not a function'')"
| "call_join (Num n) sep = Inl (TypeError ''join is not a function'')"
| "call_join (Str s) sep = Inl (TypeError ''join is not a function'')"
| "call_join (Obj kvs) sep = Inl (TypeError ''join is not a function'')"

text \<open>
  The conversion that the setter of \<^verbatim>\<open>innerText\<close> applies to the assigned value: the
  attribute is a \<^verbatim>\<open>[LegacyNullToEmptyString] DOMString\<close>, so \<^verbatim>\<open>null\<close> becomes the
  empty string and every other value goes through \<^verbatim>\<open>ToString\<close>.
\<close>

fun DOMString :: "jsval \<Rightarrow> js_error + jsstring" where
  "DOMString Null = Inr []"
| "DOMString v = ToString v"

subsection \<open>\<^verbatim>\<open>JSON.stringify({ query })\<close>\<close>

text \<open>
  The body of the request is the JSON text of an object with the one property
  \<^verbatim>\<open>query\<close>, a string. \<open>QuoteJSONString\<close> is the operation of that name of the language
  specification: the two-character escapes, \<^verbatim>\<open>\uXXXX\<close> (lower-case hexadecimal) for
  the other control characters and for surrogates that are not paired, every other
  code unit as it is. The quotation mark is code unit \<open>0x22\<close> and the reverse solidus
  \<open>0x5C\<close>.
\<close>

definition hex_digit :: "nat \<Rightarrow> 16 word" where
  "hex_digit n = (if n < 10 then 0x30 + word_of_nat n else 0x61 + word_of_nat (n - 10))"

definition UnicodeEscape :: "16 word \<Rightarrow> jsstring" where
  "UnicodeEscape c =
     [0x5C, 0x75, hex_digit (unat c div 4096), hex_digit (unat c div 256 mod 16),
      hex_digit (unat c div 16 mod 16), hex_digit (unat c mod 16)]"

definition leading_surrogate :: "16 word \<Rightarrow> bool" where
  "leading_surrogate c \<longleftrightarrow> 0xD800 \<le> c \<and> c \<le> 0xDBFF"

definition trailing_surrogate :: "16 word \<Rightarrow> bool" where
  "trailing_surrogate c \<longleftrightarrow> 0xDC00 \<le> c \<and> c \<le> 0xDFFF"

fun quote_units :: "jsstring \<Rightarrow> jsstring" where
  "quote_units [] = []"
| "quote_units (c # cs) =
     (if c = 0x08 then [0x5C, 0x62] @ quote_units cs
      else if c = 0x09 then [0x5C, 0x74] @ quote_units cs
      else if c = 0x0A then [0x5C, 0x6E] @ quote_units cs
      else if c = 0x0C then [0x5C, 0x66] @ quote_units cs
      else if c = 0x0D then [0x5C, 0x72] @ quote_units cs
      else if c = 0x22 then [0x5C, 0x22] @ quote_units cs
      else if c = 0x5C then [0x5C, 0x5C] @ quote_units cs
      else if c < 0x20 then UnicodeEscape c @ quote_units cs
      else if leading_surrogate c then
        (case cs of
           [] \<Rightarrow> UnicodeEscape c
         | d # ds \<Rightarrow>
             if trailing_surrogate d then c # d # quote_units ds
             else UnicodeEscape c @ quote_units cs)
      else if trailing_surrogate c then UnicodeEscape c @ quote_units cs
      else c # quote_units cs)"

definition QuoteJSONString :: "jsstring \<Rightarrow> jsstring" where
  "QuoteJSONString s = [0x22] @ quote_units s @ [0x22]"

definition JSON_stringify_query :: "jsstring \<Rightarrow> jsstring" where
  "JSON_stringify_query query =
     [0x7B] @ QuoteJSONString (js ''query'') @ [0x3A] @ QuoteJSONString query @ [0x7D]"

subsection \<open>The page, the network and the console\<close>

text \<open>
  The page has the eight elements that the function looks up by id; the record holds
  the property of each that the function reads or writes. \<open>responseBox_classList\<close> is the
  token list of \<^verbatim>\<open>#response\<close>, in order; the result region is hidden when it contains
  the token \<^verbatim>\<open>hidden\<close>. An \<open>innerText\<close> field is the string last assigned to the
  property. \<open>fetched\<close> lists the requests handed to \<^verbatim>\<open>fetch\<close> and \<open>console_error\<close> the
  values handed to \<^verbatim>\<open>console.error\<close>, oldest first.
\<close>

record request =
  req_url :: jsstring
  req_method :: jsstring
  req_headers :: "(jsstring \<times> jsstring) list"
  req_body :: jsstring

record state =
  query_value :: jsstring
  status_innerText :: jsstring
  responseBox_classList :: "jsstring list"
  output_innerText :: jsstring
  mode_innerText :: jsstring
  domain_innerText :: jsstring
  sources_innerText :: jsstring
  duration_innerText :: jsstring
  fetched :: "request list"
  console_error :: "js_error list"

text \<open>
  A promise that has settled is rejected with a reason or fulfilled with a value. The
  response that \<^verbatim>\<open>fetch\<close> resolves to is used for one thing, \<^verbatim>\<open>res.json()\<close>, which
  rejects when the body cannot be read or is not JSON. The host is what the function
  calls and does not define: the case mapping and the outcome of a request.
\<close>

type_synonym 'a settled = "js_error + 'a"

record response =
  json :: "jsval settled"

record host =
  toUpperCase :: "jsstring \<Rightarrow> jsstring"
  fetch :: "request \<Rightarrow> response settled"

definition classList_add :: "jsstring \<Rightarrow> jsstring list \<Rightarrow> jsstring list" where
  "classList_add t ts = (if t \<in> set ts then ts else ts @ [t])"

definition classList_remove :: "jsstring \<Rightarrow> jsstring list \<Rightarrow> jsstring list" where
  "classList_remove t ts = filter (\<lambda>u. u \<noteq> t) ts"

definition hidden :: "state \<Rightarrow> bool" where
  "hidden s \<longleftrightarrow> js ''hidden'' \<in> set (responseBox_classList s)"

subsection \<open>\<^verbatim>\<open>askCerebro\<close>\<close>

text \<open>The string literals of the source. The warning sign is U+26A0 U+FE0F.\<close>

definition warning_sign :: jsstring where
  "warning_sign = [0x26A0, 0xFE0F]"

definition please_enter :: jsstring where
  "please_enter = js ''Please enter a query.''"

definition thinking :: jsstring where
  "thinking = js ''Thinking...''"

definition error_prefix :: jsstring where
  "error_prefix = warning_sign @ js '' Error: ''"

definition failed_to_connect :: jsstring where
  "failed_to_connect = warning_sign @ js '' Failed to connect to Cerebro backend.''"

definition ask_request :: "jsstring \<Rightarrow> request" where
  "ask_request query =
     \<lparr>req_url = js ''http://localhost:5000/ask'',
      req_method = js ''POST'',
      req_headers = [(js ''Content-Type'', js ''application/json'')],
      req_body = JSON_stringify_query query\<rparr>"

text \<open>
  A statement of the \<^verbatim>\<open>try\<close> block completes normally or throws; the page is the one
  at that moment, so the assignments made before a throw stay.
\<close>

datatype completion = Normal state | Throw js_error state

definition on_value :: "js_error + 'a \<Rightarrow> state \<Rightarrow> ('a \<Rightarrow> completion) \<Rightarrow> completion" where
  "on_value x s k = (case x of Inl e \<Rightarrow> Throw e s | Inr a \<Rightarrow> k a)"

definition next_stmt :: "completion \<Rightarrow> (state \<Rightarrow> completion) \<Rightarrow> completion" where
  "next_stmt c f = (case c of Normal s \<Rightarrow> f s | Throw e s \<Rightarrow> Throw e s)"

definition and_then :: "js_error + 'a \<Rightarrow> ('a \<Rightarrow> js_error + 'b) \<Rightarrow> js_error + 'b" where
  "and_then x f = (case x of Inl e \<Rightarrow> Inl e | Inr a \<Rightarrow> f a)"

text \<open>
  The right-hand sides of the five assignments of lines 33 to 37, each with the
  conversion that the setter of \<^verbatim>\<open>innerText\<close> applies to it. They read the parsed
  body and nothing of the page.
\<close>

definition response_text :: "jsval \<Rightarrow> js_error + jsstring" where
  "response_text data = and_then (Get data (js ''response'')) DOMString"

definition mode_text :: "(jsstring \<Rightarrow> jsstring) \<Rightarrow> jsval \<Rightarrow> js_error + jsstring" where
  "mode_text upper data = and_then (Get data (js ''mode'')) (call_toUpperCase upper)"

definition domain_text :: "jsval \<Rightarrow> js_error + jsstring" where
  "domain_text data = and_then (Get data (js ''domain_used'')) DOMString"

definition sources_text :: "jsval \<Rightarrow> js_error + jsstring" where
  "sources_text data = and_then (Get data (js ''sources_used'')) (\<lambda>v. call_join v (js '', ''))"

definition duration_text :: "jsval \<Rightarrow> js_error + jsstring" where
  "duration_text data = and_then (Get data (js ''duration_secs'')) DOMString"

text \<open>The five assignments, one definition each.\<close>

definition assign_output :: "jsval \<Rightarrow> state \<Rightarrow> completion" where
  "assign_output data s =
     on_value (response_text data) s (\<lambda>t. Normal (s\<lparr>output_innerText := t\<rparr>))"

definition assign_mode :: "(jsstring \<Rightarrow> jsstring) \<Rightarrow> jsval \<Rightarrow> state \<Rightarrow> completion" where
  "assign_mode upper data s =
     on_value (mode_text upper data) s (\<lambda>t. Normal (s\<lparr>mode_innerText := t\<rparr>))"

definition assign_domain :: "jsval \<Rightarrow> state \<Rightarrow> completion" where
  "assign_domain data s =
     on_value (domain_text data) s (\<lambda>t. Normal (s\<lparr>domain_innerText := t\<rparr>))"

definition assign_sources :: "jsval \<Rightarrow> state \<Rightarrow> completion" where
  "assign_sources data s =
     on_value (sources_text data) s (\<lambda>t. Normal (s\<lparr>sources_innerText := t\<rparr>))"

definition assign_duration :: "jsval \<Rightarrow> state \<Rightarrow> completion" where
  "assign_duration data s =
     on_value (duration_text data) s (\<lambda>t. Normal (s\<lparr>duration_innerText := t\<rparr>))"

text \<open>Lines 33 to 40: the render pass, then the region is revealed and the status cleared.\<close>

definition render :: "(jsstring \<Rightarrow> jsstring) \<Rightarrow> jsval \<Rightarrow> state \<Rightarrow> completion" where
  "render upper data s =
     next_stmt (assign_output data s) (\<lambda>s.
     next_stmt (assign_mode upper data s) (\<lambda>s.
     next_stmt (assign_domain data s) (\<lambda>s.
     next_stmt (assign_sources data s) (\<lambda>s.
     next_stmt (assign_duration data s) (\<lambda>s.
     Normal (s\<lparr>responseBox_classList := classList_remove (js ''hidden'') (responseBox_classList s),
               status_innerText := []\<rparr>))))))"

text \<open>
  Lines 28 to 40: what the \<^verbatim>\<open>try\<close> block does with the parsed body. The source reads
  \<^verbatim>\<open>data.error\<close> twice, in the test and in the template literal; a parsed body has data
  properties only, so both reads give the same value.
\<close>

definition on_data :: "(jsstring \<Rightarrow> jsstring) \<Rightarrow> jsval \<Rightarrow> state \<Rightarrow> completion" where
  "on_data upper data s =
     on_value (Get data (js ''error'')) s (\<lambda>err.
     if ToBoolean err then
       on_value (ToString err) s (\<lambda>m.
       Normal (s\<lparr>status_innerText := error_prefix @ m\<rparr>))
     else render upper data s)"

text \<open>
  Lines 19 to 40: the \<^verbatim>\<open>try\<close> block from the point where the promise of \<^verbatim>\<open>fetch\<close>
  has settled. A rejection of either awaited promise is thrown at the \<^verbatim>\<open>await\<close>.
\<close>

definition try_block :: "(jsstring \<Rightarrow> jsstring) \<Rightarrow> response settled \<Rightarrow> state \<Rightarrow> completion" where
  "try_block upper outcome s =
     on_value outcome s (\<lambda>res.
     on_value (json res) s (\<lambda>data.
     on_data upper data s))"

text \<open>
  Lines 41 to 44: the \<^verbatim>\<open>catch\<close> clause, and the \<^verbatim>\<open>try\<close> statement as a whole: what the
  block throws is caught, and nothing follows the statement.
\<close>

definition catch_clause :: "js_error \<Rightarrow> state \<Rightarrow> state" where
  "catch_clause err s =
     s\<lparr>status_innerText := failed_to_connect,
       console_error := console_error s @ [err]\<rparr>"

definition try_catch :: "completion \<Rightarrow> state" where
  "try_catch c = (case c of Normal s \<Rightarrow> s | Throw err s \<Rightarrow> catch_clause err s)"

text \<open>
  The function runs in two parts. \<open>askCerebro_start\<close> is lines 2 to 24, up to the first
  \<^verbatim>\<open>await\<close>: it returns at once on an empty query, and otherwise calls \<^verbatim>\<open>fetch\<close> and
  suspends. \<open>askCerebro_resume\<close> is the rest, run on the page as it is when the promise
  settles. \<open>askCerebro\<close> runs both with nothing else touching the page in between. A
  request that is never answered leaves the function suspended: the page stays as
  \<open>askCerebro_start\<close> left it, and \<open>askCerebro\<close> says nothing about that run.
\<close>

datatype suspension = Returned state | Awaiting request state

definition begin_request :: "jsstring \<Rightarrow> state \<Rightarrow> state" where
  \<comment> \<open>lines 16 to 24: the status, the class list, and the call of \<^verbatim>\<open>fetch\<close>\<close>
  "begin_request query s =
     s\<lparr>status_innerText := thinking,
       responseBox_classList := classList_add (js ''hidden'') (responseBox_classList s),
       fetched := fetched s @ [ask_request query]\<rparr>"

definition askCerebro_start :: "state \<Rightarrow> suspension" where
  "askCerebro_start s =
     (let query = trim (query_value s) in
      if \<not> ToBoolean (Str query) then
        Returned (s\<lparr>status_innerText := please_enter\<rparr>)
      else
        Awaiting (ask_request query) (begin_request query s))"

definition askCerebro_resume :: "(jsstring \<Rightarrow> jsstring) \<Rightarrow> response settled \<Rightarrow> state \<Rightarrow> state" where
  "askCerebro_resume upper outcome s = try_catch (try_block upper outcome s)"

definition askCerebro :: "host \<Rightarrow> state \<Rightarrow> state" where
  "askCerebro h s =
     (case askCerebro_start s of
        Returned s' \<Rightarrow> s'
      | Awaiting req s' \<Rightarrow> askCerebro_resume (toUpperCase h) (fetch h req) s')"

subsection \<open>What a submission shows\<close>

text \<open>
  The display state: the status text, the token list that decides whether the result
  region is visible, and the five sub-fields of the result region.
\<close>

definition result_fields :: "state \<Rightarrow> jsstring \<times> jsstring \<times> jsstring \<times> jsstring \<times> jsstring" where
  "result_fields s =
     (output_innerText s, mode_innerText s, domain_innerText s, sources_innerText s,
      duration_innerText s)"

definition display :: "state \<Rightarrow> jsstring \<times> jsstring list \<times> jsstring \<times> jsstring \<times> jsstring \<times> jsstring \<times> jsstring" where
  "display s = (status_innerText s, responseBox_classList s, result_fields s)"

text \<open>
  The specification's ``joined with a separator'', stated on its own for a sequence of
  strings: the first string, then each further string preceded by the separator.
\<close>

definition spec_joined :: "jsstring \<Rightarrow> jsstring list \<Rightarrow> jsstring" where
  "spec_joined sep xs =
     (case xs of [] \<Rightarrow> [] | x # ys \<Rightarrow> x @ concat (map (\<lambda>y. sep @ y) ys))"

text \<open>
  The specification's ``JSON body \<^verbatim>\<open>{"query": <trimmed text>}\<close>'', stated on its own: a text
  is such a body for the string \<open>q\<close> when it is \<^verbatim>\<open>{"query":"\<close>, the characters of a JSON
  string and \<^verbatim>\<open>"}\<close>, and those characters denote \<open>q\<close> by the JSON grammar: a reverse
  solidus starts one of the escapes \<^verbatim>\<open>\" \\ \/ \b \f \n \r \t\<close> or \<^verbatim>\<open>\uXXXX\<close> with four
  hexadecimal digits, a quotation mark or a control character does not occur
  unescaped, and every other code unit stands for itself.
\<close>

definition unhex :: "16 word \<Rightarrow> nat option" where
  "unhex c =
     (if 0x30 \<le> c \<and> c \<le> 0x39 then Some (unat c - 0x30)
      else if 0x61 \<le> c \<and> c \<le> 0x66 then Some (unat c - 0x61 + 10)
      else if 0x41 \<le> c \<and> c \<le> 0x46 then Some (unat c - 0x41 + 10)
      else None)"

fun spec_unquote :: "jsstring \<Rightarrow> jsstring option" where
  "spec_unquote [] = Some []"
| "spec_unquote (c # cs) =
     (if c = 0x5C then
        (case cs of
           [] \<Rightarrow> None
         | e # r \<Rightarrow>
             if e = 0x22 then map_option ((#) 0x22) (spec_unquote r)
             else if e = 0x5C then map_option ((#) 0x5C) (spec_unquote r)
             else if e = 0x2F then map_option ((#) 0x2F) (spec_unquote r)
             else if e = 0x62 then map_option ((#) 0x08) (spec_unquote r)
             else if e = 0x66 then map_option ((#) 0x0C) (spec_unquote r)
             else if e = 0x6E then map_option ((#) 0x0A) (spec_unquote r)
             else if e = 0x72 then map_option ((#) 0x0D) (spec_unquote r)
             else if e = 0x74 then map_option ((#) 0x09) (spec_unquote r)
             else if e = 0x75 then
               (case r of
                  h1 # h2 # h3 # h4 # r' \<Rightarrow>
                    (case (unhex h1, unhex h2, unhex h3, unhex h4) of
                       (Some a, Some b, Some c', Some d) \<Rightarrow>
                         map_option ((#) (word_of_nat (a * 4096 + b * 256 + c' * 16 + d)))
                           (spec_unquote r')
                     | _ \<Rightarrow> None)
                | _ \<Rightarrow> None)
             else None)
      else if c = 0x22 \<or> c < 0x20 then None
      else map_option ((#) c) (spec_unquote cs))"

fun strip_prefix :: "'a list \<Rightarrow> 'a list \<Rightarrow> 'a list option" where
  "strip_prefix [] ys = Some ys"
| "strip_prefix (x # xs) [] = None"
| "strip_prefix (x # xs) (y # ys) = (if x = y then strip_prefix xs ys else None)"

definition spec_query_of_body :: "jsstring \<Rightarrow> jsstring option" where
  "spec_query_of_body b =
     (case strip_prefix ([0x7B, 0x22] @ js ''query'' @ [0x22, 0x3A, 0x22]) b of
        None \<Rightarrow> None
      | Some r \<Rightarrow>
          (case strip_prefix [0x7D, 0x22] (rev r) of
             None \<Rightarrow> None
           | Some m \<Rightarrow> spec_unquote (rev m)))"


subsection \<open>Concrete pages and hosts\<close>

text \<open>
  Inputs on which the function is run below. \<open>toUpperCase_ascii\<close> is \<^verbatim>\<open>toUpperCase\<close> on
  strings of ASCII characters. \<open>fresh_page\<close> is the page before any submission, with a
  query typed in and the result region hidden; \<open>used_page\<close> shows the result of an earlier
  submission and has only white space in the input field. The hosts answer every
  request in the same way: with the success and failure bodies of the specification's
  examples, with bodies that leave a field out or carry an empty \<^verbatim>\<open>error\<close>, with the
  body \<^verbatim>\<open>{"error": {"toString": 1}}\<close>, with a rejected \<^verbatim>\<open>fetch\<close>, and with a body that
  is not JSON.
\<close>

definition toUpperCase_ascii :: "jsstring \<Rightarrow> jsstring" where
  "toUpperCase_ascii s = map (\<lambda>c. if 0x61 \<le> c \<and> c \<le> 0x7A then c - 0x20 else c) s"

definition fresh_page :: state where
  "fresh_page =
     \<lparr>query_value = js ''  what is 6 * 7? '',
      status_innerText = [],
      responseBox_classList = [js ''card'', js ''hidden''],
      output_innerText = [], mode_innerText = [], domain_innerText = [],
      sources_innerText = [], duration_innerText = [],
      fetched = [], console_error = []\<rparr>"

definition used_page :: state where
  "used_page =
     \<lparr>query_value = [0x20, 0x09, 0xA0, 0x0A],
      status_innerText = [],
      responseBox_classList = [js ''card''],
      output_innerText = js ''42'', mode_innerText = js ''FAST'', domain_innerText = js ''math'',
      sources_innerText = js ''a, b'', duration_innerText = js ''0.12'',
      fetched = [ask_request (js ''what is 6 * 7?'')], console_error = []\<rparr>"

definition success_body :: "(jsstring \<times> jsval) list" where
  "success_body =
     [(js ''response'', Str (js ''42'')),
      (js ''mode'', Str (js ''fast'')),
      (js ''domain_used'', Str (js ''math'')),
      (js ''sources_used'', Arr [Str (js ''a''), Str (js ''b'')]),
      (js ''duration_secs'', Num (js ''0.12''))]"

definition answering :: "jsval \<Rightarrow> host" where
  "answering data = \<lparr>toUpperCase = toUpperCase_ascii, fetch = (\<lambda>req. Inr \<lparr>json = Inr data\<rparr>)\<rparr>"

definition host_success :: host where
  "host_success = answering (Obj success_body)"

definition host_bad_domain :: host where
  "host_bad_domain = answering (Obj [(js ''error'', Str (js ''bad domain''))])"


definition no_mode_body :: "(jsstring \<times> jsval) list" where
  "no_mode_body =
     [(js ''response'', Str (js ''42'')),
      (js ''domain_used'', Str (js ''math'')),
      (js ''sources_used'', Arr [Str (js ''a''), Str (js ''b'')]),
      (js ''duration_secs'', Num (js ''0.12''))]"

definition no_duration_body :: "(jsstring \<times> jsval) list" where
  "no_duration_body =
     [(js ''response'', Str (js ''42'')),
      (js ''mode'', Str (js ''fast'')),
      (js ''domain_used'', Str (js ''math'')),
      (js ''sources_used'', Arr [Str (js ''a''), Str (js ''b'')])]"

definition no_sources_body :: "(jsstring \<times> jsval) list" where
  "no_sources_body =
     [(js ''response'', Str (js ''42'')),
      (js ''mode'', Str (js ''fast'')),
      (js ''domain_used'', Str (js ''math'')),
      (js ''duration_secs'', Num (js ''0.12''))]"

definition unprintable_error_body :: "(jsstring \<times> jsval) list" where
  "unprintable_error_body = [(js ''error'', Obj [(js ''toString'', Num (js ''1''))])]"

definition host_no_mode :: host where
  "host_no_mode = answering (Obj no_mode_body)"

definition host_no_duration :: host where
  "host_no_duration = answering (Obj no_duration_body)"

definition host_no_sources :: host where
  "host_no_sources = answering (Obj no_sources_body)"

definition host_unprintable_error :: host where
  "host_unprintable_error = answering (Obj unprintable_error_body)"

definition host_down :: host where
  "host_down =
     \<lparr>toUpperCase = toUpperCase_ascii, fetch = (\<lambda>req. Inl (TypeError ''Failed to fetch''))\<rparr>"

definition host_not_json :: host where
  "host_not_json =
     \<lparr>toUpperCase = toUpperCase_ascii,
      fetch = (\<lambda>req. Inr \<lparr>json = Inl (SyntaxError ''Unexpected token < in JSON'')\<rparr>)\<rparr>"

section \<open>Properties\<close>

subsection \<open>Trimming\<close>

lemma trim_Nil_iff: "trim s = [] \<longleftrightarrow> (\<forall>c\<in>set s. trimmable c)"
proof
  assume "trim s = []"
  then have rest: "\<forall>c\<in>set (dropWhile trimmable s). trimmable c"
    by (simp add: trim_def)
  show "\<forall>c\<in>set s. trimmable c"
  proof (cases "dropWhile trimmable s")
    case Nil
    then show ?thesis by simp
  next
    case (Cons c cs)
    then have "\<not> trimmable c"
      using hd_dropWhile [of trimmable s] by simp
    with rest Cons show ?thesis by simp
  qed
next
  assume "\<forall>c\<in>set s. trimmable c"
  then have d: "dropWhile trimmable s = []" by simp
  show "trim s = []" unfolding trim_def d by simp
qed

subsection \<open>The class list\<close>

lemma classList_add_idem: "classList_add t (classList_add t ts) = classList_add t ts"
  by (simp add: classList_add_def)

lemma classList_remove_add: "classList_remove t (classList_add t ts) = classList_remove t ts"
  by (simp add: classList_add_def classList_remove_def)

lemma classList_remove_idem: "classList_remove t (classList_remove t ts) = classList_remove t ts"
  by (simp add: classList_remove_def)

lemma in_classList_add: "t \<in> set (classList_add t ts)"
  by (simp add: classList_add_def)

lemma notin_classList_remove: "t \<notin> set (classList_remove t ts)"
  by (simp add: classList_remove_def)

subsection \<open>Joining strings\<close>

lemma spec_joined_Cons2: "spec_joined sep (x # y # ys) = x @ sep @ spec_joined sep (y # ys)"
  by (simp add: spec_joined_def)

lemma join_strings: "join sep (map Str xs) = Inr (spec_joined sep xs)"
proof (induction xs rule: induct_list012)
  case 1
  show ?case by (simp add: spec_joined_def)
next
  case (2 x)
  show ?case by (simp add: spec_joined_def)
next
  case (3 x y zs)
  then show ?case by (simp add: spec_joined_Cons2)
qed

subsection \<open>The two parts of the function\<close>

lemma start_empty:
  "trim (query_value s) = [] \<Longrightarrow>
   askCerebro_start s = Returned (s\<lparr>status_innerText := please_enter\<rparr>)"
  by (simp add: askCerebro_start_def)

lemma start_nonempty:
  "trim (query_value s) \<noteq> [] \<Longrightarrow>
   askCerebro_start s =
     Awaiting (ask_request (trim (query_value s))) (begin_request (trim (query_value s)) s)"
  by (simp add: askCerebro_start_def Let_def)

lemma run_empty:
  "trim (query_value s) = [] \<Longrightarrow> askCerebro h s = s\<lparr>status_innerText := please_enter\<rparr>"
  by (simp add: askCerebro_def start_empty)

lemma run_nonempty:
  "trim (query_value s) \<noteq> [] \<Longrightarrow>
   askCerebro h s =
     askCerebro_resume (toUpperCase h) (fetch h (ask_request (trim (query_value s))))
       (begin_request (trim (query_value s)) s)"
  by (simp add: askCerebro_def start_nonempty)

lemma resume_fetch_rejected: "askCerebro_resume u (Inl e) s = catch_clause e s"
  by (simp add: askCerebro_resume_def try_block_def on_value_def try_catch_def)

lemma resume_json_rejected:
  "json res = Inl e \<Longrightarrow> askCerebro_resume u (Inr res) s = catch_clause e s"
  by (simp add: askCerebro_resume_def try_block_def on_value_def try_catch_def)

lemma resume_parsed:
  "json res = Inr data \<Longrightarrow> askCerebro_resume u (Inr res) s = try_catch (on_data u data s)"
  by (simp add: askCerebro_resume_def try_block_def on_value_def)

lemma on_data_truthy:
  "Get data (js ''error'') = Inr v \<Longrightarrow> ToBoolean v \<Longrightarrow>
   on_data u data s =
     on_value (ToString v) s (\<lambda>m. Normal (s\<lparr>status_innerText := error_prefix @ m\<rparr>))"
  by (simp add: on_data_def on_value_def)

lemma on_data_falsy:
  "Get data (js ''error'') = Inr v \<Longrightarrow> \<not> ToBoolean v \<Longrightarrow> on_data u data s = render u data s"
  by (simp add: on_data_def on_value_def)

lemma on_data_null:
  "Get data (js ''error'') = Inl e \<Longrightarrow> on_data u data s = Throw e s"
  by (simp add: on_data_def on_value_def)

lemmas render_defs = render_def assign_output_def assign_mode_def assign_domain_def
  assign_sources_def assign_duration_def on_value_def next_stmt_def

lemma render_complete:
  "response_text data = Inr a \<Longrightarrow> mode_text u data = Inr b \<Longrightarrow> domain_text data = Inr c \<Longrightarrow>
   sources_text data = Inr d \<Longrightarrow> duration_text data = Inr e \<Longrightarrow>
   render u data s =
     Normal (s\<lparr>output_innerText := a, mode_innerText := b, domain_innerText := c,
               sources_innerText := d, duration_innerText := e,
               responseBox_classList := classList_remove (js ''hidden'') (responseBox_classList s),
               status_innerText := []\<rparr>)"
  by (simp add: render_defs)

text \<open>What a run leaves alone.\<close>

lemma try_catch_render_fetched: "fetched (try_catch (render u data s)) = fetched s"
  by (simp add: render_defs try_catch_def catch_clause_def split: sum.splits)

lemma try_catch_on_data_fetched: "fetched (try_catch (on_data u data s)) = fetched s"
proof (cases "Get data (js ''error'')")
  case (Inl e)
  then show ?thesis by (simp add: on_data_null try_catch_def catch_clause_def)
next
  case (Inr v)
  show ?thesis
  proof (cases "ToBoolean v")
    case True
    with Inr show ?thesis
      by (simp add: on_data_truthy on_value_def try_catch_def catch_clause_def split: sum.splits)
  next
    case False
    with Inr show ?thesis by (simp add: on_data_falsy try_catch_render_fetched)
  qed
qed

lemma resume_fetched: "fetched (askCerebro_resume u out s) = fetched s"
proof (cases out)
  case (Inl e)
  then show ?thesis by (simp add: resume_fetch_rejected catch_clause_def)
next
  case (Inr res)
  then show ?thesis
    by (cases "json res")
       (simp_all add: resume_json_rejected resume_parsed catch_clause_def try_catch_on_data_fetched)
qed

lemma try_catch_render_query: "query_value (try_catch (render u data s)) = query_value s"
  by (simp add: render_defs try_catch_def catch_clause_def split: sum.splits)

lemma try_catch_on_data_query: "query_value (try_catch (on_data u data s)) = query_value s"
proof (cases "Get data (js ''error'')")
  case (Inl e)
  then show ?thesis by (simp add: on_data_null try_catch_def catch_clause_def)
next
  case (Inr v)
  show ?thesis
  proof (cases "ToBoolean v")
    case True
    with Inr show ?thesis
      by (simp add: on_data_truthy on_value_def try_catch_def catch_clause_def split: sum.splits)
  next
    case False
    with Inr show ?thesis by (simp add: on_data_falsy try_catch_render_query)
  qed
qed

lemma resume_query: "query_value (askCerebro_resume u out s) = query_value s"
proof (cases out)
  case (Inl e)
  then show ?thesis by (simp add: resume_fetch_rejected catch_clause_def)
next
  case (Inr res)
  then show ?thesis
    by (cases "json res")
       (simp_all add: resume_json_rejected resume_parsed catch_clause_def try_catch_on_data_query)
qed

lemma run_query: "query_value (askCerebro h s) = query_value s"
  by (cases "trim (query_value s) = []")
     (simp_all add: run_empty run_nonempty resume_query begin_request_def)


subsection \<open>The body of the request, read back\<close>

lemma unat_hex_digit: "n < 16 \<Longrightarrow> unat (hex_digit n) = (if n < 10 then 48 + n else 87 + n)"
  by (simp add: hex_digit_def unat_word_ariths unat_of_nat)

lemma unhex_hex_digit: "n < 16 \<Longrightarrow> unhex (hex_digit n) = Some n"
  by (simp add: unhex_def word_le_nat_alt unat_hex_digit)

lemma nibbles_nat:
  "(n::nat) div 4096 * 4096 + n div 256 mod 16 * 256 + n div 16 mod 16 * 16 + n mod 16 = n"
proof -
  have a: "n div 256 = n div 16 div 16" "n div 4096 = n div 16 div 16 div 16"
    by (simp_all add: div_mult2_eq [symmetric])
  have "n div 16 * 16 + n mod 16 = n" by simp
  moreover have "n div 16 div 16 * 16 + n div 16 mod 16 = n div 16" by simp
  moreover have "n div 16 div 16 div 16 * 16 + n div 16 div 16 mod 16 = n div 16 div 16" by simp
  ultimately show ?thesis
    unfolding a by linarith
qed

lemma unquote_escape:
  "spec_unquote (UnicodeEscape c @ rest) = map_option ((#) c) (spec_unquote rest)"
proof -
  have "unat c < 65536"
    using unsigned_less [of c, where ?'a = nat] by simp
  then have "unat c div 4096 < 16" by simp
  then have "spec_unquote (UnicodeEscape c @ rest) =
      map_option ((#) (word_of_nat (unat c div 4096 * 4096 + unat c div 256 mod 16 * 256 +
        unat c div 16 mod 16 * 16 + unat c mod 16))) (spec_unquote rest)"
    by (simp add: UnicodeEscape_def unhex_hex_digit del: of_nat_add of_nat_mult)
  then show ?thesis
    by (simp only: nibbles_nat) simp
qed

lemma unquote_plain:
  "c \<noteq> 0x5C \<Longrightarrow> c \<noteq> 0x22 \<Longrightarrow> \<not> c < 0x20 \<Longrightarrow>
   spec_unquote (c # cs) = map_option ((#) c) (spec_unquote cs)"
  by simp

lemma unquote_short:
  "spec_unquote (0x5C # 0x62 # r) = map_option ((#) 0x08) (spec_unquote r)"
  "spec_unquote (0x5C # 0x74 # r) = map_option ((#) 0x09) (spec_unquote r)"
  "spec_unquote (0x5C # 0x6E # r) = map_option ((#) 0x0A) (spec_unquote r)"
  "spec_unquote (0x5C # 0x66 # r) = map_option ((#) 0x0C) (spec_unquote r)"
  "spec_unquote (0x5C # 0x72 # r) = map_option ((#) 0x0D) (spec_unquote r)"
  "spec_unquote (0x5C # 0x22 # r) = map_option ((#) 0x22) (spec_unquote r)"
  "spec_unquote (0x5C # 0x5C # r) = map_option ((#) 0x5C) (spec_unquote r)"
  by simp_all

lemma surrogate_plain:
  "leading_surrogate c \<or> trailing_surrogate c \<Longrightarrow> c \<noteq> 0x5C \<and> c \<noteq> 0x22 \<and> \<not> c < 0x20"
  by (auto simp add: leading_surrogate_def trailing_surrogate_def word_le_nat_alt word_less_nat_alt)

lemma unquote_quote: "spec_unquote (quote_units s) = Some s"
proof (induction s rule: quote_units.induct)
  case 1
  show ?case by simp
next
  case (2 c cs)
  note [simp del] = spec_unquote.simps
  consider (short) "c = 0x08 \<or> c = 0x09 \<or> c = 0x0A \<or> c = 0x0C \<or> c = 0x0D \<or> c = 0x22 \<or> c = 0x5C"
    | (control) "\<not> (c = 0x08 \<or> c = 0x09 \<or> c = 0x0A \<or> c = 0x0C \<or> c = 0x0D \<or> c = 0x22 \<or> c = 0x5C)" "c < 0x20"
    | (lead) "\<not> (c = 0x08 \<or> c = 0x09 \<or> c = 0x0A \<or> c = 0x0C \<or> c = 0x0D \<or> c = 0x22 \<or> c = 0x5C)" "\<not> c < 0x20" "leading_surrogate c"
    | (trail) "\<not> (c = 0x08 \<or> c = 0x09 \<or> c = 0x0A \<or> c = 0x0C \<or> c = 0x0D \<or> c = 0x22 \<or> c = 0x5C)" "\<not> c < 0x20" "\<not> leading_surrogate c" "trailing_surrogate c"
    | (plain) "\<not> (c = 0x08 \<or> c = 0x09 \<or> c = 0x0A \<or> c = 0x0C \<or> c = 0x0D \<or> c = 0x22 \<or> c = 0x5C)" "\<not> c < 0x20" "\<not> leading_surrogate c" "\<not> trailing_surrogate c"
    by blast
  then show ?case
  proof cases
    case short
    with "2.IH"(1-7) show ?thesis
      by (auto simp add: unquote_short)
  next
    case control
    with "2.IH"(8) show ?thesis
      by (simp add: unquote_escape)
  next
    case lead
    show ?thesis
    proof (cases cs)
      case Nil
      with lead show ?thesis
        using unquote_escape [of c "[]"] by (simp add: spec_unquote.simps(1))
    next
      case (Cons d ds)
      show ?thesis
      proof (cases "trailing_surrogate d")
        case True
        with lead Cons "2.IH"(9) [of d ds] surrogate_plain [of c] surrogate_plain [of d]
        show ?thesis
          by (simp add: unquote_plain)
      next
        case False
        with lead Cons "2.IH"(10) [of d ds] show ?thesis
          by (simp add: unquote_escape)
      qed
    qed
  next
    case trail
    with "2.IH"(11) show ?thesis
      by (simp add: unquote_escape)
  next
    case plain
    with "2.IH"(12) show ?thesis
      by (simp add: unquote_plain)
  qed
qed

lemma query_key: "quote_units (js ''query'') = js ''query''"
  by (simp add: js_def leading_surrogate_def trailing_surrogate_def)

lemma strip_prefix_append: "strip_prefix xs (xs @ ys) = Some ys"
  by (induction xs) simp_all

lemma body_decodes: "spec_query_of_body (JSON_stringify_query q) = Some q"
proof -
  let ?opening = "[0x7B, 0x22] @ js ''query'' @ [0x22, 0x3A, 0x22]"
  have "JSON_stringify_query q = ?opening @ (quote_units q @ [0x22, 0x7D])"
    by (simp add: JSON_stringify_query_def query_key QuoteJSONString_def)
  then have "strip_prefix ?opening (JSON_stringify_query q) = Some (quote_units q @ [0x22, 0x7D])"
    by (simp only: strip_prefix_append)
  moreover have "strip_prefix [0x7D, 0x22] (rev (quote_units q @ [0x22, 0x7D])) =
      Some (rev (quote_units q))"
    using strip_prefix_append [of "[0x7D, 0x22]" "rev (quote_units q)"] by simp
  ultimately show ?thesis
    by (simp add: spec_query_of_body_def unquote_quote del: spec_unquote.simps)
qed

subsection \<open>The concrete inputs\<close>

lemmas trim_defs = trim_def trimmable_def WhiteSpace_def LineTerminator_def js_def

lemma fresh_query: "trim (query_value fresh_page) = js ''what is 6 * 7?''"
  by (simp add: fresh_page_def trim_defs)

lemma fresh_query_nonempty: "trim (query_value fresh_page) \<noteq> []"
  by (simp add: fresh_page_def trim_defs)

lemma used_query_blank: "list_all trimmable (query_value used_page)"
  by (simp add: used_page_def trimmable_def WhiteSpace_def LineTerminator_def)

lemma fresh_hidden: "hidden fresh_page"
  by (simp add: hidden_def fresh_page_def js_def)

lemma used_shown: "\<not> hidden used_page"
  by (simp add: hidden_def used_page_def js_def)

text \<open>
  C1. For every input whose trimmed text is not empty, the submission hands exactly one
  request to \<^verbatim>\<open>fetch\<close>: a POST to \<^verbatim>\<open>http://localhost:5000/ask\<close> with the header
  \<^verbatim>\<open>Content-Type: application/json\<close> and the text that \<^verbatim>\<open>JSON.stringify\<close> gives for
  \<^verbatim>\<open>{ query }\<close> as body, where \<^verbatim>\<open>query\<close> is the trimmed input; read back by the JSON
  grammar, that body is \<^verbatim>\<open>{"query": ...}\<close> with the trimmed input as the string.
\<close>

theorem C1_one_post:
  assumes "trim (query_value s) \<noteq> []"
  shows "fetched (askCerebro h s) =
           fetched s @
           [\<lparr>req_url = js ''http://localhost:5000/ask'',
             req_method = js ''POST'',
             req_headers = [(js ''Content-Type'', js ''application/json'')],
             req_body = JSON_stringify_query (trim (query_value s))\<rparr>] \<and>
         spec_query_of_body (JSON_stringify_query (trim (query_value s))) =
           Some (trim (query_value s))"
  using assms
  by (simp add: run_nonempty resume_fetched begin_request_def ask_request_def body_decodes)

theorem C1_one_post_witness:
  "trim (query_value fresh_page) \<noteq> [] \<and>
   fetched (askCerebro host_success fresh_page) =
     [\<lparr>req_url = js ''http://localhost:5000/ask'',
       req_method = js ''POST'',
       req_headers = [(js ''Content-Type'', js ''application/json'')],
       req_body = [0x7B, 0x22] @ js ''query'' @ [0x22, 0x3A, 0x22] @ js ''what is 6 * 7?'' @
              [0x22, 0x7D]\<rparr>]"
proof -
  have q: "trim (query_value fresh_page) \<noteq> []"
    by (rule fresh_query_nonempty)
  have "fetched fresh_page = []"
    by (simp add: fresh_page_def)
  moreover have "JSON_stringify_query (js ''what is 6 * 7?'') =
      [0x7B, 0x22] @ js ''query'' @ [0x22, 0x3A, 0x22] @ js ''what is 6 * 7?'' @ [0x22, 0x7D]"
    by (simp add: JSON_stringify_query_def QuoteJSONString_def js_def leading_surrogate_def
        trailing_surrogate_def)
  ultimately show ?thesis
    using q C1_one_post [OF q, of host_success] by (simp add: fresh_query)
qed

text \<open>
  C2. For every input that is empty or consists of white space and line terminators
  only, the submission returns at once: nothing is handed to \<^verbatim>\<open>fetch\<close>, nothing is
  thrown or logged, and the only change to the page is the status, which is exactly
  \<^verbatim>\<open>Please enter a query.\<close>
\<close>

theorem C2_blank_input:
  assumes "list_all trimmable (query_value s)"
  shows "askCerebro_start s = Returned (s\<lparr>status_innerText := js ''Please enter a query.''\<rparr>) \<and>
         askCerebro h s = s\<lparr>status_innerText := js ''Please enter a query.''\<rparr> \<and>
         fetched (askCerebro h s) = fetched s \<and>
         console_error (askCerebro h s) = console_error s"
proof -
  from assms have "trim (query_value s) = []"
    by (simp add: trim_Nil_iff list_all_iff)
  then show ?thesis
    by (simp add: run_empty start_empty please_enter_def)
qed

theorem C2_blank_input_witness:
  "list_all trimmable (query_value used_page) \<and>
   query_value used_page \<noteq> [] \<and>
   askCerebro host_success used_page = used_page\<lparr>status_innerText := js ''Please enter a query.''\<rparr> \<and>
   fetched (askCerebro host_success used_page) = fetched used_page"
  using used_query_blank C2_blank_input [OF used_query_blank, of host_success]
  by (simp add: used_page_def)

text \<open>
  C8, as the code has it. For every input whose trimmed text is not empty, the function
  reaches its first \<^verbatim>\<open>await\<close> with the request handed to \<^verbatim>\<open>fetch\<close>, the status set to
  \<^verbatim>\<open>Thinking...\<close>, which ends in three full stops (U+002E), and the result region hidden,
  whatever it showed before.
\<close>

theorem C8_thinking:
  assumes "trim (query_value s) \<noteq> []"
  shows "\<exists>req s'. askCerebro_start s = Awaiting req s' \<and>
           status_innerText s' = js ''Thinking...'' \<and> hidden s' \<and>
           result_fields s' = result_fields s"
  using assms
  by (simp add: start_nonempty begin_request_def thinking_def hidden_def in_classList_add
      result_fields_def)

theorem C8_thinking_witness:
  "trim (query_value (used_page\<lparr>query_value := js ''again''\<rparr>)) \<noteq> [] \<and>
   \<not> hidden (used_page\<lparr>query_value := js ''again''\<rparr>) \<and>
   (\<exists>req s'. askCerebro_start (used_page\<lparr>query_value := js ''again''\<rparr>) = Awaiting req s' \<and>
      status_innerText s' = js ''Thinking...'' \<and> hidden s')"
proof -
  have q: "trim (query_value (used_page\<lparr>query_value := js ''again''\<rparr>)) \<noteq> []"
    by (simp add: trim_defs)
  have "\<not> hidden (used_page\<lparr>query_value := js ''again''\<rparr>)"
    using used_shown by (simp add: hidden_def)
  then show ?thesis
    using q C8_thinking [OF q] by blast
qed


text \<open>
  The claim as written quotes the message with an ellipsis, the one character U+2026.
  The status at the first \<^verbatim>\<open>await\<close> is not that string: the literal of the source ends in
  three full stops.
\<close>

theorem C8_ellipsis_counterexample:
  "askCerebro_start fresh_page =
     Awaiting (ask_request (js ''what is 6 * 7?''))
       (begin_request (js ''what is 6 * 7?'') fresh_page) \<and>
   status_innerText (begin_request (js ''what is 6 * 7?'') fresh_page) \<noteq>
     js ''Thinking'' @ [0x2026] \<and>
   status_innerText (begin_request (js ''what is 6 * 7?'') fresh_page) =
     js ''Thinking'' @ [0x2E, 0x2E, 0x2E]"
proof -
  have "askCerebro_start fresh_page =
      Awaiting (ask_request (js ''what is 6 * 7?''))
        (begin_request (js ''what is 6 * 7?'') fresh_page)"
    using start_nonempty [OF fresh_query_nonempty] by (simp add: fresh_query)
  moreover have "status_innerText (begin_request (js ''what is 6 * 7?'') fresh_page) =
      js ''Thinking'' @ [0x2E, 0x2E, 0x2E]"
    by (simp add: begin_request_def thinking_def js_def)
  moreover have "js ''Thinking'' @ [0x2E, 0x2E, 0x2E] \<noteq> js ''Thinking'' @ [0x2026]"
    by simp
  ultimately show ?thesis
    by simp
qed

subsection \<open>The right-hand sides on a body of the expected shape\<close>

lemma response_text_Str: "Get data (js ''response'') = Inr (Str r) \<Longrightarrow> response_text data = Inr r"
  by (simp add: response_text_def and_then_def)

lemma mode_text_Str: "Get data (js ''mode'') = Inr (Str m) \<Longrightarrow> mode_text u data = Inr (u m)"
  by (simp add: mode_text_def and_then_def)

lemma domain_text_Str: "Get data (js ''domain_used'') = Inr (Str d) \<Longrightarrow> domain_text data = Inr d"
  by (simp add: domain_text_def and_then_def)

lemma sources_text_strings:
  "Get data (js ''sources_used'') = Inr (Arr (map Str xs)) \<Longrightarrow>
   sources_text data = Inr (spec_joined (js '', '') xs)"
  by (simp add: sources_text_def and_then_def join_strings)

lemma duration_text_Num: "Get data (js ''duration_secs'') = Inr (Num n) \<Longrightarrow> duration_text data = Inr n"
  by (simp add: duration_text_def and_then_def)

lemma success_body_fields:
  "Get (Obj success_body) (js ''error'') = Inr Undefined"
  "Get (Obj success_body) (js ''response'') = Inr (Str (js ''42''))"
  "Get (Obj success_body) (js ''mode'') = Inr (Str (js ''fast''))"
  "Get (Obj success_body) (js ''domain_used'') = Inr (Str (js ''math''))"
  "Get (Obj success_body) (js ''sources_used'') = Inr (Arr (map Str [js ''a'', js ''b'']))"
  "Get (Obj success_body) (js ''duration_secs'') = Inr (Num (js ''0.12''))"
  by (simp_all add: success_body_def js_def)

lemma toUpperCase_ascii_fast: "toUpperCase_ascii (js ''fast'') = js ''FAST''"
  by (simp add: toUpperCase_ascii_def js_def)

lemma run_parsed:
  "trim (query_value s) \<noteq> [] \<Longrightarrow>
   fetch h (ask_request (trim (query_value s))) = Inr res \<Longrightarrow> json res = Inr data \<Longrightarrow>
   askCerebro h s = try_catch (on_data (toUpperCase h) data (begin_request (trim (query_value s)) s))"
  by (simp add: run_nonempty resume_parsed)

lemma run_complete:
  assumes "trim (query_value s) \<noteq> []"
    and "fetch h (ask_request (trim (query_value s))) = Inr res"
    and "json res = Inr data"
    and "Get data (js ''error'') = Inr err" and "\<not> ToBoolean err"
    and "response_text data = Inr a" and "mode_text (toUpperCase h) data = Inr b"
    and "domain_text data = Inr c" and "sources_text data = Inr d"
    and "duration_text data = Inr e"
  shows "askCerebro h s =
           s\<lparr>output_innerText := a, mode_innerText := b, domain_innerText := c,
             sources_innerText := d, duration_innerText := e,
             responseBox_classList := classList_remove (js ''hidden'') (responseBox_classList s),
             status_innerText := [],
             fetched := fetched s @ [ask_request (trim (query_value s))]\<rparr>"
proof -
  let ?s = "begin_request (trim (query_value s)) s"
  have "askCerebro h s = try_catch (render (toUpperCase h) data ?s)"
    using assms(1-5) by (simp add: run_parsed on_data_falsy)
  also have "render (toUpperCase h) data ?s =
      Normal (?s\<lparr>output_innerText := a, mode_innerText := b, domain_innerText := c,
                  sources_innerText := d, duration_innerText := e,
                  responseBox_classList :=
                    classList_remove (js ''hidden'') (responseBox_classList ?s),
                  status_innerText := []\<rparr>)"
    using assms(6-10) by (rule render_complete)
  finally show ?thesis
    by (simp add: try_catch_def begin_request_def classList_remove_add)
qed

lemma shown_classList_remove:
  "responseBox_classList t = classList_remove (js ''hidden'') ts \<Longrightarrow> \<not> hidden t"
  by (simp add: hidden_def notin_classList_remove)

text \<open>
  C3, as the code has it. For every parsed response whose \<^verbatim>\<open>error\<close> is absent or falsy
  and whose five fields are present with the types of the data model (\<^verbatim>\<open>response\<close>,
  \<^verbatim>\<open>mode\<close> and \<^verbatim>\<open>domain_used\<close> strings, \<^verbatim>\<open>sources_used\<close> a sequence of strings,
  \<^verbatim>\<open>duration_secs\<close> a number), the submission writes \<^verbatim>\<open>response\<close> as it is, \<^verbatim>\<open>mode\<close> in
  upper case, \<^verbatim>\<open>domain_used\<close> as it is, the strings of \<^verbatim>\<open>sources_used\<close> joined with a
  comma and a space, and \<^verbatim>\<open>duration_secs\<close> in the string form of the number; it then
  reveals the result region and sets the status to the empty string.
\<close>

theorem C3_success_render:
  assumes "trim (query_value s) \<noteq> []"
    and "fetch h (ask_request (trim (query_value s))) = Inr res"
    and "json res = Inr data"
    and "Get data (js ''error'') = Inr err" and "\<not> ToBoolean err"
    and "Get data (js ''response'') = Inr (Str r)"
    and "Get data (js ''mode'') = Inr (Str m)"
    and "Get data (js ''domain_used'') = Inr (Str d)"
    and "Get data (js ''sources_used'') = Inr (Arr (map Str srcs))"
    and "Get data (js ''duration_secs'') = Inr (Num n)"
  shows "askCerebro h s =
           s\<lparr>output_innerText := r,
             mode_innerText := toUpperCase h m,
             domain_innerText := d,
             sources_innerText := spec_joined (js '', '') srcs,
             duration_innerText := n,
             responseBox_classList := classList_remove (js ''hidden'') (responseBox_classList s),
             status_innerText := [],
             fetched := fetched s @ [ask_request (trim (query_value s))]\<rparr> \<and>
         \<not> hidden (askCerebro h s)"
proof -
  have run: "askCerebro h s =
      s\<lparr>output_innerText := r, mode_innerText := toUpperCase h m, domain_innerText := d,
        sources_innerText := spec_joined (js '', '') srcs, duration_innerText := n,
        responseBox_classList := classList_remove (js ''hidden'') (responseBox_classList s),
        status_innerText := [],
        fetched := fetched s @ [ask_request (trim (query_value s))]\<rparr>"
    using assms
    by (intro run_complete response_text_Str mode_text_Str domain_text_Str
        sources_text_strings duration_text_Num)
  then have "\<not> hidden (askCerebro h s)"
    by (simp add: shown_classList_remove)
  with run show ?thesis by simp
qed

theorem C3_success_render_witness:
  "trim (query_value fresh_page) \<noteq> [] \<and>
   hidden fresh_page \<and>
   askCerebro host_success fresh_page =
     fresh_page\<lparr>output_innerText := js ''42'',
       mode_innerText := js ''FAST'',
       domain_innerText := js ''math'',
       sources_innerText := js ''a, b'',
       duration_innerText := js ''0.12'',
       responseBox_classList := [js ''card''],
       status_innerText := [],
       fetched := [ask_request (js ''what is 6 * 7?'')]\<rparr> \<and>
   \<not> hidden (askCerebro host_success fresh_page)"
proof -
  have q: "trim (query_value fresh_page) \<noteq> []"
    by (rule fresh_query_nonempty)
  have f: "fetch host_success (ask_request (trim (query_value fresh_page))) =
      Inr \<lparr>json = Inr (Obj success_body)\<rparr>"
    by (simp add: host_success_def answering_def)
  have j: "json \<lparr>json = Inr (Obj success_body)\<rparr> = Inr (Obj success_body)"
    by simp
  have e: "\<not> ToBoolean Undefined"
    by simp
  have u: "toUpperCase host_success (js ''fast'') = js ''FAST''"
    by (simp add: host_success_def answering_def toUpperCase_ascii_fast)
  have c: "classList_remove (js ''hidden'') (responseBox_classList fresh_page) = [js ''card'']"
    by (simp add: classList_remove_def fresh_page_def js_def)
  have t: "spec_joined (js '', '') [js ''a'', js ''b''] = js ''a, b''"
    by (simp add: spec_joined_def js_def)
  have p: "fetched fresh_page = []"
    by (simp add: fresh_page_def)
  note run = C3_success_render [OF q f j success_body_fields(1) e success_body_fields(2-6)]
  from run have "askCerebro host_success fresh_page =
      fresh_page\<lparr>output_innerText := js ''42'', mode_innerText := js ''FAST'',
        domain_innerText := js ''math'', sources_innerText := js ''a, b'',
        duration_innerText := js ''0.12'', responseBox_classList := [js ''card''],
        status_innerText := [], fetched := [ask_request (js ''what is 6 * 7?'')]\<rparr>"
    by (simp add: u c t p fresh_query)
  moreover from run have "\<not> hidden (askCerebro host_success fresh_page)"
    by (rule conjunct2)
  ultimately show ?thesis
    using q fresh_hidden by blast
qed


lemma no_sources_fields:
  "Get (Obj no_sources_body) (js ''error'') = Inr Undefined"
  "Get (Obj no_sources_body) (js ''response'') = Inr (Str (js ''42''))"
  "Get (Obj no_sources_body) (js ''mode'') = Inr (Str (js ''fast''))"
  "Get (Obj no_sources_body) (js ''domain_used'') = Inr (Str (js ''math''))"
  "Get (Obj no_sources_body) (js ''sources_used'') = Inr Undefined"
  by (simp_all add: no_sources_body_def js_def)

text \<open>
  The claim as written speaks of every response whose \<^verbatim>\<open>error\<close> is absent or falsy. The
  body of the specification's success example without \<^verbatim>\<open>sources_used\<close> is such a
  response: the first three sub-fields are written, the call of \<^verbatim>\<open>join\<close> on \<^verbatim>\<open>undefined\<close>
  throws, and the submission ends in the catch clause, with the sources and the duration
  not written, the region hidden and the status not cleared.
\<close>

theorem C3_untyped_response_counterexample:
  "fetch host_no_sources (ask_request (trim (query_value fresh_page))) =
     Inr \<lparr>json = Inr (Obj no_sources_body)\<rparr> \<and>
   Get (Obj no_sources_body) (js ''error'') = Inr Undefined \<and>
   \<not> ToBoolean Undefined \<and>
   askCerebro host_no_sources fresh_page =
     fresh_page\<lparr>status_innerText := [0x26A0, 0xFE0F] @ js '' Failed to connect to Cerebro backend.'',
       output_innerText := js ''42'',
       mode_innerText := js ''FAST'',
       domain_innerText := js ''math'',
       fetched := [ask_request (js ''what is 6 * 7?'')],
       console_error := [TypeError ''Cannot read properties of undefined'']\<rparr> \<and>
   sources_innerText (askCerebro host_no_sources fresh_page) = [] \<and>
   status_innerText (askCerebro host_no_sources fresh_page) \<noteq> [] \<and>
   hidden (askCerebro host_no_sources fresh_page)"
proof -
  let ?s = "begin_request (trim (query_value fresh_page)) fresh_page"
  have f: "fetch host_no_sources (ask_request (trim (query_value fresh_page))) =
      Inr \<lparr>json = Inr (Obj no_sources_body)\<rparr>"
    by (simp add: host_no_sources_def answering_def)
  have u: "toUpperCase host_no_sources (js ''fast'') = js ''FAST''"
    by (simp add: host_no_sources_def answering_def toUpperCase_ascii_fast)
  have "response_text (Obj no_sources_body) = Inr (js ''42'')"
    using no_sources_fields(2) by (rule response_text_Str)
  moreover have "mode_text (toUpperCase host_no_sources) (Obj no_sources_body) = Inr (js ''FAST'')"
    using mode_text_Str [OF no_sources_fields(3), of "toUpperCase host_no_sources"]
    by (simp only: u)
  moreover have "domain_text (Obj no_sources_body) = Inr (js ''math'')"
    using no_sources_fields(4) by (rule domain_text_Str)
  moreover have "sources_text (Obj no_sources_body) =
      Inl (TypeError ''Cannot read properties of undefined'')"
    using no_sources_fields(5) by (simp add: sources_text_def and_then_def)
  ultimately have "render (toUpperCase host_no_sources) (Obj no_sources_body) ?s =
      Throw (TypeError ''Cannot read properties of undefined'')
        (?s\<lparr>output_innerText := js ''42'', mode_innerText := js ''FAST'',
            domain_innerText := js ''math''\<rparr>)"
    by (simp add: render_defs)
  then have "askCerebro host_no_sources fresh_page =
      catch_clause (TypeError ''Cannot read properties of undefined'')
        (?s\<lparr>output_innerText := js ''42'', mode_innerText := js ''FAST'',
            domain_innerText := js ''math''\<rparr>)"
    using no_sources_fields(1)
    by (simp add: run_parsed [OF fresh_query_nonempty f] on_data_falsy try_catch_def)
  then have run: "askCerebro host_no_sources fresh_page =
      fresh_page\<lparr>status_innerText := [0x26A0, 0xFE0F] @ js '' Failed to connect to Cerebro backend.'',
        output_innerText := js ''42'',
        mode_innerText := js ''FAST'',
        domain_innerText := js ''math'',
        fetched := [ask_request (js ''what is 6 * 7?'')],
        console_error := [TypeError ''Cannot read properties of undefined'']\<rparr>"
    by (simp add: catch_clause_def begin_request_def fresh_query failed_to_connect_def
        warning_sign_def)
       (simp add: fresh_page_def classList_add_def js_def)
  then have "hidden (askCerebro host_no_sources fresh_page)"
    using fresh_hidden by (simp add: hidden_def)
  moreover from run have "sources_innerText (askCerebro host_no_sources fresh_page) = []"
    by (simp add: fresh_page_def)
  moreover from run have "status_innerText (askCerebro host_no_sources fresh_page) \<noteq> []"
    by simp
  ultimately show ?thesis
    using run f no_sources_fields(1) by simp
qed

subsection \<open>The two failure paths\<close>

lemma run_backend_error:
  assumes "trim (query_value s) \<noteq> []"
    and "fetch h (ask_request (trim (query_value s))) = Inr res"
    and "json res = Inr data"
    and "Get data (js ''error'') = Inr err" and "ToBoolean err"
  shows "askCerebro h s =
           try_catch (on_value (ToString err) (begin_request (trim (query_value s)) s)
             (\<lambda>m. Normal (begin_request (trim (query_value s)) s
                \<lparr>status_innerText := error_prefix @ m\<rparr>)))"
  using assms by (simp add: run_nonempty resume_parsed on_data_truthy)

lemma run_backend_error_text:
  assumes "trim (query_value s) \<noteq> []"
    and "fetch h (ask_request (trim (query_value s))) = Inr res"
    and "json res = Inr data"
    and "Get data (js ''error'') = Inr err" and "ToBoolean err" and "ToString err = Inr m"
  shows "askCerebro h s =
           s\<lparr>status_innerText := error_prefix @ m,
             responseBox_classList := classList_add (js ''hidden'') (responseBox_classList s),
             fetched := fetched s @ [ask_request (trim (query_value s))]\<rparr>"
  using assms(6)
  by (simp add: run_backend_error [OF assms(1-5)] on_value_def try_catch_def begin_request_def)

lemma run_thrown:
  assumes "trim (query_value s) \<noteq> []"
    and "fetch h (ask_request (trim (query_value s))) = Inl e \<or>
         (\<exists>res. fetch h (ask_request (trim (query_value s))) = Inr res \<and> json res = Inl e)"
  shows "askCerebro h s =
           s\<lparr>status_innerText := failed_to_connect,
             responseBox_classList := classList_add (js ''hidden'') (responseBox_classList s),
             fetched := fetched s @ [ask_request (trim (query_value s))],
             console_error := console_error s @ [e]\<rparr>"
  using assms
  by (auto simp add: run_nonempty resume_fetch_rejected resume_json_rejected catch_clause_def
      begin_request_def)

lemma hidden_classList_add:
  "responseBox_classList t = classList_add (js ''hidden'') ts \<Longrightarrow> hidden t"
  by (simp add: hidden_def in_classList_add)

lemma error_path_hidden:
  "hidden s \<Longrightarrow> hidden (try_catch (on_value x s (\<lambda>m. Normal (s\<lparr>status_innerText := f m\<rparr>))))"
  by (cases x) (simp_all add: on_value_def try_catch_def catch_clause_def hidden_def)

lemma hidden_begin_request: "hidden (begin_request q s)"
  by (simp add: begin_request_def hidden_def in_classList_add)

lemma bad_domain_fields:
  "Get (Obj [(js ''error'', Str (js ''bad domain''))]) (js ''error'') = Inr (Str (js ''bad domain''))"
  "ToBoolean (Str (js ''bad domain''))"
  "ToString (Str (js ''bad domain'')) = Inr (js ''bad domain'')"
  by (simp_all add: js_def)

lemma unprintable_error_fields:
  "Get (Obj unprintable_error_body) (js ''error'') = Inr (Obj [(js ''toString'', Num (js ''1''))])"
  "ToBoolean (Obj [(js ''toString'', Num (js ''1''))])"
  "ToString (Obj [(js ''toString'', Num (js ''1''))]) =
     Inl (TypeError ''Cannot convert object to primitive value'')"
  by (simp_all add: unprintable_error_body_def)

text \<open>
  C4, as the code has it. For every parsed response whose \<^verbatim>\<open>error\<close> is truthy, the result
  region is not revealed: it is hidden when the submission ends. When the value of
  \<^verbatim>\<open>error\<close> has a string form (every string is its own), the status becomes the warning
  sign, \<^verbatim>\<open> Error: \<close> and that string form, and nothing else on the page changes. When it
  has none, the template literal throws inside the \<^verbatim>\<open>try\<close> block and the catch clause
  runs: the status is the message of a failed connection and the exception is logged.
\<close>

theorem C4_backend_error:
  assumes "trim (query_value s) \<noteq> []"
    and "fetch h (ask_request (trim (query_value s))) = Inr res"
    and "json res = Inr data"
    and "Get data (js ''error'') = Inr err" and "ToBoolean err"
  shows "hidden (askCerebro h s) \<and>
         (\<forall>m. ToString err = Inr m \<longrightarrow>
            askCerebro h s =
              s\<lparr>status_innerText := [0x26A0, 0xFE0F] @ js '' Error: '' @ m,
                responseBox_classList := classList_add (js ''hidden'') (responseBox_classList s),
                fetched := fetched s @ [ask_request (trim (query_value s))]\<rparr>) \<and>
         (\<forall>e. ToString err = Inl e \<longrightarrow>
            askCerebro h s =
              s\<lparr>status_innerText := [0x26A0, 0xFE0F] @ js '' Failed to connect to Cerebro backend.'',
                responseBox_classList := classList_add (js ''hidden'') (responseBox_classList s),
                fetched := fetched s @ [ask_request (trim (query_value s))],
                console_error := console_error s @ [e]\<rparr>)"
proof (intro conjI allI impI)
  let ?s = "begin_request (trim (query_value s)) s"
  have run: "askCerebro h s =
      try_catch (on_value (ToString err) ?s (\<lambda>m. Normal (?s\<lparr>status_innerText := error_prefix @ m\<rparr>)))"
    using assms by (rule run_backend_error)
  then show "hidden (askCerebro h s)"
    by (simp add: error_path_hidden hidden_begin_request)
  {
    fix e
    assume "ToString err = Inl e"
    then show "askCerebro h s =
        s\<lparr>status_innerText := [0x26A0, 0xFE0F] @ js '' Failed to connect to Cerebro backend.'',
          responseBox_classList := classList_add (js ''hidden'') (responseBox_classList s),
          fetched := fetched s @ [ask_request (trim (query_value s))],
          console_error := console_error s @ [e]\<rparr>"
      by (simp add: run on_value_def try_catch_def catch_clause_def begin_request_def
          failed_to_connect_def warning_sign_def)
  }
  fix m
  assume "ToString err = Inr m"
  with assms show "askCerebro h s =
      s\<lparr>status_innerText := [0x26A0, 0xFE0F] @ js '' Error: '' @ m,
        responseBox_classList := classList_add (js ''hidden'') (responseBox_classList s),
        fetched := fetched s @ [ask_request (trim (query_value s))]\<rparr>"
    using run_backend_error_text [of s h res data err m]
    by (simp add: error_prefix_def warning_sign_def)
qed

theorem C4_backend_error_witness:
  "trim (query_value fresh_page) \<noteq> [] \<and>
   ToBoolean (Str (js ''bad domain'')) \<and>
   status_innerText (askCerebro host_bad_domain fresh_page) =
     [0x26A0, 0xFE0F] @ js '' Error: bad domain'' \<and>
   hidden (askCerebro host_bad_domain fresh_page) \<and>
   result_fields (askCerebro host_bad_domain fresh_page) = result_fields fresh_page \<and>
   ToBoolean (Obj [(js ''toString'', Num (js ''1''))]) \<and>
   hidden (askCerebro host_unprintable_error fresh_page) \<and>
   status_innerText (askCerebro host_unprintable_error fresh_page) =
     [0x26A0, 0xFE0F] @ js '' Failed to connect to Cerebro backend.''"
proof -
  have q: "trim (query_value fresh_page) \<noteq> []"
    by (rule fresh_query_nonempty)
  have f': "fetch host_unprintable_error (ask_request (trim (query_value fresh_page))) =
      Inr \<lparr>json = Inr (Obj unprintable_error_body)\<rparr>"
    by (simp add: host_unprintable_error_def answering_def)
  have j': "json \<lparr>json = Inr (Obj unprintable_error_body)\<rparr> = Inr (Obj unprintable_error_body)"
    by simp
  note thrown = C4_backend_error [OF q f' j' unprintable_error_fields(1,2)]
  from thrown have hid': "hidden (askCerebro host_unprintable_error fresh_page)"
    by (rule conjunct1)
  from thrown unprintable_error_fields(3) have "askCerebro host_unprintable_error fresh_page =
      fresh_page\<lparr>status_innerText := [0x26A0, 0xFE0F] @ js '' Failed to connect to Cerebro backend.'',
        responseBox_classList := classList_add (js ''hidden'') (responseBox_classList fresh_page),
        fetched := fetched fresh_page @ [ask_request (trim (query_value fresh_page))],
        console_error := console_error fresh_page @
          [TypeError ''Cannot convert object to primitive value'']\<rparr>"
    by blast
  then have st': "status_innerText (askCerebro host_unprintable_error fresh_page) =
      [0x26A0, 0xFE0F] @ js '' Failed to connect to Cerebro backend.''"
    by simp
  have f: "fetch host_bad_domain (ask_request (trim (query_value fresh_page))) =
      Inr \<lparr>json = Inr (Obj [(js ''error'', Str (js ''bad domain''))])\<rparr>"
    by (simp add: host_bad_domain_def answering_def)
  have j: "json \<lparr>json = Inr (Obj [(js ''error'', Str (js ''bad domain''))])\<rparr> =
      Inr (Obj [(js ''error'', Str (js ''bad domain''))])"
    by simp
  note run = C4_backend_error [OF q f j bad_domain_fields(1,2)]
  from run have hid: "hidden (askCerebro host_bad_domain fresh_page)"
    by (rule conjunct1)
  from run bad_domain_fields(3) have eq: "askCerebro host_bad_domain fresh_page =
      fresh_page\<lparr>status_innerText := [0x26A0, 0xFE0F] @ js '' Error: '' @ js ''bad domain'',
        responseBox_classList := classList_add (js ''hidden'') (responseBox_classList fresh_page),
        fetched := fetched fresh_page @ [ask_request (trim (query_value fresh_page))]\<rparr>"
    by blast
  from eq have "status_innerText (askCerebro host_bad_domain fresh_page) =
      [0x26A0, 0xFE0F] @ js '' Error: bad domain''"
    by (simp add: js_def)
  moreover from eq have
    "result_fields (askCerebro host_bad_domain fresh_page) = result_fields fresh_page"
    by (simp add: result_fields_def)
  ultimately show ?thesis
    using q hid bad_domain_fields(2) hid' st' unprintable_error_fields(2) by blast
qed

text \<open>
  The claim as written has the status contain the value of every truthy \<^verbatim>\<open>error\<close>. In the
  body \<^verbatim>\<open>{"error": {"toString": 1}}\<close> the value is an object, hence truthy, and its own
  property \<^verbatim>\<open>toString\<close> is not callable: the template literal of line 29 throws, and the
  status is the message of a failed connection, which has nothing of the value in it.
\<close>

theorem C4_unprintable_error_counterexample:
  "fetch host_unprintable_error (ask_request (trim (query_value fresh_page))) =
     Inr \<lparr>json = Inr (Obj unprintable_error_body)\<rparr> \<and>
   Get (Obj unprintable_error_body) (js ''error'') = Inr (Obj [(js ''toString'', Num (js ''1''))]) \<and>
   ToBoolean (Obj [(js ''toString'', Num (js ''1''))]) \<and>
   ToString (Obj [(js ''toString'', Num (js ''1''))]) =
     Inl (TypeError ''Cannot convert object to primitive value'') \<and>
   askCerebro host_unprintable_error fresh_page =
     fresh_page\<lparr>status_innerText := [0x26A0, 0xFE0F] @ js '' Failed to connect to Cerebro backend.'',
       fetched := [ask_request (js ''what is 6 * 7?'')],
       console_error := [TypeError ''Cannot convert object to primitive value'']\<rparr>"
proof -
  let ?s = "begin_request (trim (query_value fresh_page)) fresh_page"
  have f: "fetch host_unprintable_error (ask_request (trim (query_value fresh_page))) =
      Inr \<lparr>json = Inr (Obj unprintable_error_body)\<rparr>"
    by (simp add: host_unprintable_error_def answering_def)
  have j: "json \<lparr>json = Inr (Obj unprintable_error_body)\<rparr> = Inr (Obj unprintable_error_body)"
    by simp
  have "askCerebro host_unprintable_error fresh_page =
      try_catch (on_value (ToString (Obj [(js ''toString'', Num (js ''1''))])) ?s
        (\<lambda>m. Normal (?s\<lparr>status_innerText := error_prefix @ m\<rparr>)))"
    using fresh_query_nonempty f j unprintable_error_fields(1,2) by (rule run_backend_error)
  then have "askCerebro host_unprintable_error fresh_page =
      catch_clause (TypeError ''Cannot convert object to primitive value'') ?s"
    by (simp only: unprintable_error_fields(3)) (simp add: on_value_def try_catch_def)
  then have "askCerebro host_unprintable_error fresh_page =
      fresh_page\<lparr>status_innerText := [0x26A0, 0xFE0F] @ js '' Failed to connect to Cerebro backend.'',
        fetched := [ask_request (js ''what is 6 * 7?'')],
        console_error := [TypeError ''Cannot convert object to primitive value'']\<rparr>"
    by (simp add: catch_clause_def begin_request_def fresh_query failed_to_connect_def
        warning_sign_def)
       (simp add: fresh_page_def classList_add_def js_def)
  then show ?thesis
    using f unprintable_error_fields by simp
qed

text \<open>
  C5, as the code has it. When the promise of \<^verbatim>\<open>fetch\<close> or the promise of \<^verbatim>\<open>res.json()\<close> is
  rejected, the rejection is caught: the status becomes the warning sign followed by
  \<^verbatim>\<open> Failed to connect to Cerebro backend.\<close>, the reason of the rejection is handed to
  \<^verbatim>\<open>console.error\<close>, the result region stays hidden, and the one request of the
  submission is the only one.
\<close>

theorem C5_transport_failure:
  assumes "trim (query_value s) \<noteq> []"
    and "fetch h (ask_request (trim (query_value s))) = Inl e \<or>
         (\<exists>res. fetch h (ask_request (trim (query_value s))) = Inr res \<and> json res = Inl e)"
  shows "askCerebro h s =
           s\<lparr>status_innerText := [0x26A0, 0xFE0F] @ js '' Failed to connect to Cerebro backend.'',
             responseBox_classList := classList_add (js ''hidden'') (responseBox_classList s),
             fetched := fetched s @ [ask_request (trim (query_value s))],
             console_error := console_error s @ [e]\<rparr> \<and>
         hidden (askCerebro h s)"
proof -
  have run: "askCerebro h s =
      s\<lparr>status_innerText := [0x26A0, 0xFE0F] @ js '' Failed to connect to Cerebro backend.'',
        responseBox_classList := classList_add (js ''hidden'') (responseBox_classList s),
        fetched := fetched s @ [ask_request (trim (query_value s))],
        console_error := console_error s @ [e]\<rparr>"
    using run_thrown [OF assms] by (simp add: failed_to_connect_def warning_sign_def)
  then have "hidden (askCerebro h s)"
    by (simp add: hidden_classList_add)
  with run show ?thesis by simp
qed

theorem C5_transport_failure_witness:
  "trim (query_value fresh_page) \<noteq> [] \<and>
   status_innerText (askCerebro host_not_json fresh_page) =
     [0x26A0, 0xFE0F] @ js '' Failed to connect to Cerebro backend.'' \<and>
   console_error (askCerebro host_not_json fresh_page) =
     [SyntaxError ''Unexpected token < in JSON''] \<and>
   fetched (askCerebro host_not_json fresh_page) = [ask_request (js ''what is 6 * 7?'')] \<and>
   hidden (askCerebro host_not_json fresh_page)"
proof -
  have q: "trim (query_value fresh_page) \<noteq> []"
    by (rule fresh_query_nonempty)
  have f: "fetch host_not_json (ask_request (trim (query_value fresh_page))) =
        Inl (SyntaxError ''Unexpected token < in JSON'') \<or>
      (\<exists>res. fetch host_not_json (ask_request (trim (query_value fresh_page))) = Inr res \<and>
         json res = Inl (SyntaxError ''Unexpected token < in JSON''))"
    by (simp add: host_not_json_def)
  note run = C5_transport_failure [OF q f]
  from run have
    "status_innerText (askCerebro host_not_json fresh_page) =
       [0x26A0, 0xFE0F] @ js '' Failed to connect to Cerebro backend.''"
    "console_error (askCerebro host_not_json fresh_page) =
       [SyntaxError ''Unexpected token < in JSON'']"
    "fetched (askCerebro host_not_json fresh_page) = [ask_request (js ''what is 6 * 7?'')]"
    by (simp_all add: fresh_query) (simp_all add: fresh_page_def)
  moreover from run have "hidden (askCerebro host_not_json fresh_page)"
    by (rule conjunct2)
  ultimately show ?thesis
    using q by blast
qed

text \<open>
  The claim as written names the message without the warning sign. With \<^verbatim>\<open>fetch\<close>
  rejected, the status is not that string: it starts with the sign and a space.
\<close>

theorem C5_exact_message_counterexample:
  "fetch host_down (ask_request (trim (query_value fresh_page))) = Inl (TypeError ''Failed to fetch'') \<and>
   status_innerText (askCerebro host_down fresh_page) \<noteq>
     js ''Failed to connect to Cerebro backend.'' \<and>
   status_innerText (askCerebro host_down fresh_page) =
     [0x26A0, 0xFE0F, 0x20] @ js ''Failed to connect to Cerebro backend.''"
proof -
  have f: "fetch host_down (ask_request (trim (query_value fresh_page))) =
      Inl (TypeError ''Failed to fetch'')"
    by (simp add: host_down_def)
  then have "status_innerText (askCerebro host_down fresh_page) = failed_to_connect"
    using run_thrown [OF fresh_query_nonempty, of host_down "TypeError ''Failed to fetch''"]
    by simp
  then show ?thesis
    using f by (simp add: failed_to_connect_def warning_sign_def js_def)
qed


subsection \<open>A second submission\<close>

lemmas display_defs = display_def result_fields_def begin_request_def

lemma render_twice:
  "display (try_catch (render u data (begin_request q (try_catch (render u data (begin_request q' s))))))
   = display (try_catch (render u data (begin_request q' s)))"
  by (simp add: render_defs try_catch_def catch_clause_def display_defs classList_add_idem
      classList_remove_add classList_remove_idem split: sum.splits)

lemma on_data_twice:
  "display (try_catch (on_data u data (begin_request q (try_catch (on_data u data (begin_request q' s))))))
   = display (try_catch (on_data u data (begin_request q' s)))"
proof (cases "Get data (js ''error'')")
  case (Inl e)
  then show ?thesis
    by (simp add: on_data_null try_catch_def catch_clause_def display_defs classList_add_idem)
next
  case (Inr v)
  show ?thesis
  proof (cases "ToBoolean v")
    case True
    with Inr show ?thesis
      by (cases "ToString v")
         (simp_all add: on_data_truthy on_value_def try_catch_def catch_clause_def display_defs
            classList_add_idem)
  next
    case False
    with Inr show ?thesis
      by (simp add: on_data_falsy render_twice)
  qed
qed

lemma resume_twice:
  "display (askCerebro_resume u out (begin_request q (askCerebro_resume u out (begin_request q' s))))
   = display (askCerebro_resume u out (begin_request q' s))"
proof (cases out)
  case (Inl e)
  then show ?thesis
    by (simp add: resume_fetch_rejected catch_clause_def display_defs classList_add_idem)
next
  case (Inr res)
  show ?thesis
  proof (cases "json res")
    case (Inl e)
    with Inr show ?thesis
      by (simp add: resume_json_rejected catch_clause_def display_defs classList_add_idem)
  next
    case right: (Inr data)
    with Inr show ?thesis
      by (simp add: resume_parsed on_data_twice)
  qed
qed

text \<open>
  C9. A second submission of the same input to a host that answers as before leaves
  the display as the first submission left it. The function does not change the input
  field, so the second submission reads the same query; the display is the status, the
  class list of the result region and its five sub-fields.
\<close>

theorem C9_second_submission:
  "display (askCerebro h (askCerebro h s)) = display (askCerebro h s) \<and>
   query_value (askCerebro h s) = query_value s"
proof (cases "trim (query_value s) = []")
  case True
  then have "askCerebro h s = s\<lparr>status_innerText := please_enter\<rparr>"
    by (rule run_empty)
  moreover from True have "trim (query_value (s\<lparr>status_innerText := please_enter\<rparr>)) = []"
    by simp
  ultimately show ?thesis
    by (simp add: run_empty)
next
  case False
  let ?q = "trim (query_value s)"
  let ?out = "fetch h (ask_request ?q)"
  have first: "askCerebro h s = askCerebro_resume (toUpperCase h) ?out (begin_request ?q s)"
    using False by (rule run_nonempty)
  have same: "query_value (askCerebro h s) = query_value s"
    by (rule run_query)
  with False have "trim (query_value (askCerebro h s)) \<noteq> []"
    by simp
  then have "askCerebro h (askCerebro h s) =
      askCerebro_resume (toUpperCase h) ?out (begin_request ?q (askCerebro h s))"
    using run_nonempty [of "askCerebro h s" h] by (simp add: same)
  then have "display (askCerebro h (askCerebro h s)) = display (askCerebro h s)"
    by (simp add: first resume_twice)
  with same show ?thesis by simp
qed

theorem C9_second_submission_witness:
  "trim (query_value fresh_page) \<noteq> [] \<and>
   display (askCerebro host_success (askCerebro host_success fresh_page)) =
     ([], [js ''card''], js ''42'', js ''FAST'', js ''math'', js ''a, b'', js ''0.12'') \<and>
   display (askCerebro host_success fresh_page) =
     ([], [js ''card''], js ''42'', js ''FAST'', js ''math'', js ''a, b'', js ''0.12'')"
proof -
  have f: "fetch host_success (ask_request (trim (query_value fresh_page))) =
      Inr \<lparr>json = Inr (Obj success_body)\<rparr>"
    by (simp add: host_success_def answering_def)
  have "askCerebro host_success fresh_page =
      try_catch (render toUpperCase_ascii (Obj success_body)
        (begin_request (trim (query_value fresh_page)) fresh_page))"
    using success_body_fields(1)
    by (simp add: run_nonempty [OF fresh_query_nonempty] f resume_parsed on_data_falsy
        host_success_def answering_def)
  also have "render toUpperCase_ascii (Obj success_body)
        (begin_request (trim (query_value fresh_page)) fresh_page) =
      Normal (begin_request (trim (query_value fresh_page)) fresh_page
        \<lparr>output_innerText := js ''42'', mode_innerText := toUpperCase_ascii (js ''fast''),
          domain_innerText := js ''math'',
          sources_innerText := spec_joined (js '', '') [js ''a'', js ''b''],
          duration_innerText := js ''0.12'',
          responseBox_classList := classList_remove (js ''hidden'')
            (responseBox_classList (begin_request (trim (query_value fresh_page)) fresh_page)),
          status_innerText := []\<rparr>)"
    using success_body_fields(2-6)
    by (intro render_complete response_text_Str mode_text_Str domain_text_Str
        sources_text_strings duration_text_Num)
  finally have "display (askCerebro host_success fresh_page) =
      ([], [js ''card''], js ''42'', js ''FAST'', js ''math'', js ''a, b'', js ''0.12'')"
    by (simp add: try_catch_def display_defs classList_remove_add toUpperCase_ascii_fast)
       (simp add: fresh_page_def classList_remove_def spec_joined_def js_def)
  then show ?thesis
    using fresh_query_nonempty C9_second_submission [of host_success fresh_page] by simp
qed

text \<open>
  C10. On the path of a blank input the five sub-fields of the result region and its
  class list are what they were, so a result that was visible stays visible under the
  status \<^verbatim>\<open>Please enter a query.\<close> On the path of a truthy \<^verbatim>\<open>error\<close> the five sub-fields
  are what they were.
\<close>

theorem C10_fields_kept:
  "(trim (query_value s) = [] \<longrightarrow>
      result_fields (askCerebro h s) = result_fields s \<and>
      responseBox_classList (askCerebro h s) = responseBox_classList s \<and>
      hidden (askCerebro h s) = hidden s \<and>
      status_innerText (askCerebro h s) = js ''Please enter a query.'') \<and>
   (trim (query_value s) \<noteq> [] \<and>
    fetch h (ask_request (trim (query_value s))) = Inr res \<and>
    json res = Inr data \<and> Get data (js ''error'') = Inr err \<and> ToBoolean err \<longrightarrow>
      result_fields (askCerebro h s) = result_fields s)"
proof (intro conjI impI)
  assume "trim (query_value s) = []"
  then have run: "askCerebro h s = s\<lparr>status_innerText := please_enter\<rparr>"
    by (rule run_empty)
  show "result_fields (askCerebro h s) = result_fields s"
    by (simp add: run result_fields_def)
  show "responseBox_classList (askCerebro h s) = responseBox_classList s"
    by (simp add: run)
  show "hidden (askCerebro h s) = hidden s"
    by (simp add: run hidden_def)
  show "status_innerText (askCerebro h s) = js ''Please enter a query.''"
    by (simp add: run please_enter_def)
next
  assume a: "trim (query_value s) \<noteq> [] \<and>
    fetch h (ask_request (trim (query_value s))) = Inr res \<and>
    json res = Inr data \<and> Get data (js ''error'') = Inr err \<and> ToBoolean err"
  then have "askCerebro h s =
      try_catch (on_value (ToString err) (begin_request (trim (query_value s)) s)
        (\<lambda>m. Normal (begin_request (trim (query_value s)) s
           \<lparr>status_innerText := error_prefix @ m\<rparr>)))"
    using run_backend_error [of s h res data err] by simp
  then show "result_fields (askCerebro h s) = result_fields s"
    by (cases "ToString err")
       (simp_all add: on_value_def try_catch_def catch_clause_def display_defs)
qed

theorem C10_fields_kept_witness:
  "trim (query_value used_page) = [] \<and> \<not> hidden used_page \<and>
   result_fields (askCerebro host_success used_page) =
     (js ''42'', js ''FAST'', js ''math'', js ''a, b'', js ''0.12'') \<and>
   \<not> hidden (askCerebro host_success used_page) \<and>
   status_innerText (askCerebro host_success used_page) = js ''Please enter a query.'' \<and>
   trim (query_value (used_page\<lparr>query_value := js ''again''\<rparr>)) \<noteq> [] \<and>
   result_fields (askCerebro host_bad_domain (used_page\<lparr>query_value := js ''again''\<rparr>)) =
     (js ''42'', js ''FAST'', js ''math'', js ''a, b'', js ''0.12'')"
proof -
  let ?again = "used_page\<lparr>query_value := js ''again''\<rparr>"
  have blank: "trim (query_value used_page) = []"
    using used_query_blank by (simp add: trim_Nil_iff list_all_iff)
  have q: "trim (query_value ?again) \<noteq> []"
    by (simp add: trim_defs)
  have f: "fetch host_bad_domain (ask_request (trim (query_value ?again))) =
      Inr \<lparr>json = Inr (Obj [(js ''error'', Str (js ''bad domain''))])\<rparr>"
    by (simp add: host_bad_domain_def answering_def)
  have fields: "result_fields used_page = (js ''42'', js ''FAST'', js ''math'', js ''a, b'', js ''0.12'')"
    "result_fields ?again = (js ''42'', js ''FAST'', js ''math'', js ''a, b'', js ''0.12'')"
    by (simp_all add: result_fields_def used_page_def)
  note kept = C10_fields_kept [of used_page host_success]
  note kept' = C10_fields_kept [of ?again host_bad_domain
      "\<lparr>json = Inr (Obj [(js ''error'', Str (js ''bad domain''))])\<rparr>"
      "Obj [(js ''error'', Str (js ''bad domain''))]" "Str (js ''bad domain'')"]
  from kept blank have
    "result_fields (askCerebro host_success used_page) = result_fields used_page"
    "hidden (askCerebro host_success used_page) = hidden used_page"
    "status_innerText (askCerebro host_success used_page) = js ''Please enter a query.''"
    by blast+
  moreover from kept' q f bad_domain_fields have
    "result_fields (askCerebro host_bad_domain ?again) = result_fields ?again"
    by simp
  ultimately show ?thesis
    using blank q used_shown fields by simp
qed


subsection \<open>A falsy \<^verbatim>\<open>error\<close>\<close>















subsection \<open>Absent fields\<close>

lemma absent_text:
  "Get data k = Inr (case x of None \<Rightarrow> Undefined | Some t \<Rightarrow> Str t) \<Longrightarrow>
   and_then (Get data k) DOMString = Inr (case x of None \<Rightarrow> js ''undefined'' | Some t \<Rightarrow> t)"
  "Get data k = Inr (case x of None \<Rightarrow> Undefined | Some t \<Rightarrow> Num t) \<Longrightarrow>
   and_then (Get data k) DOMString = Inr (case x of None \<Rightarrow> js ''undefined'' | Some t \<Rightarrow> t)"
  by (cases x; simp add: and_then_def)+

lemma absent_mode: "Get data (js ''mode'') = Inr Undefined \<Longrightarrow> \<exists>e. mode_text u data = Inl e"
  by (simp add: mode_text_def and_then_def)

lemma absent_sources:
  "Get data (js ''sources_used'') = Inr Undefined \<Longrightarrow> \<exists>e. sources_text data = Inl e"
  by (simp add: sources_text_def and_then_def)

lemma render_throws:
  assumes "(\<exists>e. mode_text u data = Inl e) \<or> (\<exists>e. sources_text data = Inl e)"
  shows "\<exists>e t. render u data s = Throw e t \<and>
           responseBox_classList t = responseBox_classList s \<and>
           console_error t = console_error s"
  using assms by (auto simp add: render_defs split: sum.splits)

lemma no_mode_fields:
  "Get (Obj no_mode_body) (js ''error'') = Inr Undefined"
  "Get (Obj no_mode_body) (js ''response'') = Inr (Str (js ''42''))"
  "Get (Obj no_mode_body) (js ''mode'') = Inr Undefined"
  by (simp_all add: no_mode_body_def js_def)

lemma no_duration_fields:
  "Get (Obj no_duration_body) (js ''error'') = Inr Undefined"
  "Get (Obj no_duration_body) (js ''mode'') = Inr (Str (js ''fast''))"
  "Get (Obj no_duration_body) (js ''sources_used'') = Inr (Arr (map Str [js ''a'', js ''b'']))"
  "Get (Obj no_duration_body) (js ''response'') =
     Inr (case Some (js ''42'') of None \<Rightarrow> Undefined | Some t \<Rightarrow> Str t)"
  "Get (Obj no_duration_body) (js ''domain_used'') =
     Inr (case Some (js ''math'') of None \<Rightarrow> Undefined | Some t \<Rightarrow> Str t)"
  "Get (Obj no_duration_body) (js ''duration_secs'') =
     Inr (case None of None \<Rightarrow> Undefined | Some t \<Rightarrow> Num t)"
  by (simp_all add: no_duration_body_def js_def)

text \<open>
  C7, as the code has it. In a response without a truthy \<^verbatim>\<open>error\<close>, an absent
  \<^verbatim>\<open>response\<close>, \<^verbatim>\<open>domain_used\<close> or \<^verbatim>\<open>duration_secs\<close> is rendered as the text
  \<^verbatim>\<open>undefined\<close> and the render pass completes. An absent \<^verbatim>\<open>mode\<close> or \<^verbatim>\<open>sources_used\<close>
  makes the method call on it throw: the catch clause runs, the status is the message
  of a failed connection, the region stays hidden and the exception is logged.
\<close>

theorem C7_absent_fields:
  assumes "trim (query_value s) \<noteq> []"
    and "fetch h (ask_request (trim (query_value s))) = Inr res"
    and "json res = Inr data"
    and "Get data (js ''error'') = Inr err" and "\<not> ToBoolean err"
  shows "(Get data (js ''mode'') = Inr (Str m) \<and>
          Get data (js ''sources_used'') = Inr (Arr (map Str srcs)) \<and>
          Get data (js ''response'') = Inr (case r of None \<Rightarrow> Undefined | Some t \<Rightarrow> Str t) \<and>
          Get data (js ''domain_used'') = Inr (case d of None \<Rightarrow> Undefined | Some t \<Rightarrow> Str t) \<and>
          Get data (js ''duration_secs'') = Inr (case n of None \<Rightarrow> Undefined | Some t \<Rightarrow> Num t) \<longrightarrow>
            askCerebro h s =
              s\<lparr>output_innerText := (case r of None \<Rightarrow> js ''undefined'' | Some t \<Rightarrow> t),
                mode_innerText := toUpperCase h m,
                domain_innerText := (case d of None \<Rightarrow> js ''undefined'' | Some t \<Rightarrow> t),
                sources_innerText := spec_joined (js '', '') srcs,
                duration_innerText := (case n of None \<Rightarrow> js ''undefined'' | Some t \<Rightarrow> t),
                responseBox_classList :=
                  classList_remove (js ''hidden'') (responseBox_classList s),
                status_innerText := [],
                fetched := fetched s @ [ask_request (trim (query_value s))]\<rparr> \<and>
            \<not> hidden (askCerebro h s)) \<and>
         (Get data (js ''mode'') = Inr Undefined \<or>
          Get data (js ''sources_used'') = Inr Undefined \<longrightarrow>
            status_innerText (askCerebro h s) =
              [0x26A0, 0xFE0F] @ js '' Failed to connect to Cerebro backend.'' \<and>
            hidden (askCerebro h s) \<and>
            (\<exists>e. console_error (askCerebro h s) = console_error s @ [e]))"
proof (intro conjI impI)
  assume typed: "Get data (js ''mode'') = Inr (Str m) \<and>
      Get data (js ''sources_used'') = Inr (Arr (map Str srcs)) \<and>
      Get data (js ''response'') = Inr (case r of None \<Rightarrow> Undefined | Some t \<Rightarrow> Str t) \<and>
      Get data (js ''domain_used'') = Inr (case d of None \<Rightarrow> Undefined | Some t \<Rightarrow> Str t) \<and>
      Get data (js ''duration_secs'') = Inr (case n of None \<Rightarrow> Undefined | Some t \<Rightarrow> Num t)"
  show run: "askCerebro h s =
      s\<lparr>output_innerText := (case r of None \<Rightarrow> js ''undefined'' | Some t \<Rightarrow> t),
        mode_innerText := toUpperCase h m,
        domain_innerText := (case d of None \<Rightarrow> js ''undefined'' | Some t \<Rightarrow> t),
        sources_innerText := spec_joined (js '', '') srcs,
        duration_innerText := (case n of None \<Rightarrow> js ''undefined'' | Some t \<Rightarrow> t),
        responseBox_classList := classList_remove (js ''hidden'') (responseBox_classList s),
        status_innerText := [],
        fetched := fetched s @ [ask_request (trim (query_value s))]\<rparr>"
  proof (intro run_complete [OF assms])
    show "response_text data = Inr (case r of None \<Rightarrow> js ''undefined'' | Some t \<Rightarrow> t)"
      unfolding response_text_def using typed by (intro absent_text(1)) simp
    show "mode_text (toUpperCase h) data = Inr (toUpperCase h m)"
      using typed by (intro mode_text_Str) simp
    show "domain_text data = Inr (case d of None \<Rightarrow> js ''undefined'' | Some t \<Rightarrow> t)"
      unfolding domain_text_def using typed by (intro absent_text(1)) simp
    show "sources_text data = Inr (spec_joined (js '', '') srcs)"
      using typed by (intro sources_text_strings) simp
    show "duration_text data = Inr (case n of None \<Rightarrow> js ''undefined'' | Some t \<Rightarrow> t)"
      unfolding duration_text_def using typed by (intro absent_text(2)) simp
  qed
  then show "\<not> hidden (askCerebro h s)"
    by (simp add: shown_classList_remove)
next
  let ?s = "begin_request (trim (query_value s)) s"
  assume "Get data (js ''mode'') = Inr Undefined \<or> Get data (js ''sources_used'') = Inr Undefined"
  then have "(\<exists>e. mode_text (toUpperCase h) data = Inl e) \<or> (\<exists>e. sources_text data = Inl e)"
    using absent_mode absent_sources by blast
  then obtain e t where t: "render (toUpperCase h) data ?s = Throw e t"
    "responseBox_classList t = responseBox_classList ?s" "console_error t = console_error ?s"
    using render_throws by blast
  have run: "askCerebro h s = catch_clause e t"
    using assms t(1) by (simp add: run_parsed on_data_falsy try_catch_def)
  show "status_innerText (askCerebro h s) =
      [0x26A0, 0xFE0F] @ js '' Failed to connect to Cerebro backend.''"
    by (simp add: run catch_clause_def failed_to_connect_def warning_sign_def)
  show "hidden (askCerebro h s)"
    using hidden_begin_request [of "trim (query_value s)" s]
    by (simp add: run catch_clause_def hidden_def t(2))
  show "\<exists>e. console_error (askCerebro h s) = console_error s @ [e]"
    by (simp add: run catch_clause_def t(3) begin_request_def)
qed

theorem C7_absent_fields_witness:
  "trim (query_value fresh_page) \<noteq> [] \<and>
   status_innerText (askCerebro host_no_duration fresh_page) = [] \<and>
   duration_innerText (askCerebro host_no_duration fresh_page) = js ''undefined'' \<and>
   \<not> hidden (askCerebro host_no_duration fresh_page) \<and>
   status_innerText (askCerebro host_no_mode fresh_page) =
     [0x26A0, 0xFE0F] @ js '' Failed to connect to Cerebro backend.'' \<and>
   hidden (askCerebro host_no_mode fresh_page)"
proof -
  have q: "trim (query_value fresh_page) \<noteq> []"
    by (rule fresh_query_nonempty)
  have f: "fetch host_no_duration (ask_request (trim (query_value fresh_page))) =
      Inr \<lparr>json = Inr (Obj no_duration_body)\<rparr>"
    by (simp add: host_no_duration_def answering_def)
  have j: "json \<lparr>json = Inr (Obj no_duration_body)\<rparr> = Inr (Obj no_duration_body)"
    by simp
  have f': "fetch host_no_mode (ask_request (trim (query_value fresh_page))) =
      Inr \<lparr>json = Inr (Obj no_mode_body)\<rparr>"
    by (simp add: host_no_mode_def answering_def)
  have j': "json \<lparr>json = Inr (Obj no_mode_body)\<rparr> = Inr (Obj no_mode_body)"
    by simp
  have e: "\<not> ToBoolean Undefined"
    by simp
  note complete = C7_absent_fields [OF q f j no_duration_fields(1) e,
      of "js ''fast''" "[js ''a'', js ''b'']" "Some (js ''42'')" "Some (js ''math'')" None]
  from complete no_duration_fields(2-6)
  have "status_innerText (askCerebro host_no_duration fresh_page) = []"
    "duration_innerText (askCerebro host_no_duration fresh_page) = js ''undefined''"
    by simp_all
  moreover from complete no_duration_fields(2-6)
  have "\<not> hidden (askCerebro host_no_duration fresh_page)"
    by blast
  moreover from C7_absent_fields [OF q f' j' no_mode_fields(1) e] no_mode_fields(3)
  have "status_innerText (askCerebro host_no_mode fresh_page) =
      [0x26A0, 0xFE0F] @ js '' Failed to connect to Cerebro backend.''"
    "hidden (askCerebro host_no_mode fresh_page)"
    by blast+
  ultimately show ?thesis
    using q by blast
qed

text \<open>
  The claim as written has the render pass complete whichever field is absent. The body
  of the specification's success example without \<^verbatim>\<open>mode\<close> is not an error response, and
  the submission ends in the catch clause: \<^verbatim>\<open>response\<close> has been written, the TypeError
  of the call on \<^verbatim>\<open>undefined\<close> is logged, the status is the message of a failed
  connection and the region is hidden.
\<close>

theorem C7_absent_mode_counterexample:
  "fetch host_no_mode (ask_request (trim (query_value fresh_page))) =
     Inr \<lparr>json = Inr (Obj no_mode_body)\<rparr> \<and>
   Get (Obj no_mode_body) (js ''error'') = Inr Undefined \<and>
   Get (Obj no_mode_body) (js ''mode'') = Inr Undefined \<and>
   askCerebro host_no_mode fresh_page =
     fresh_page\<lparr>status_innerText := [0x26A0, 0xFE0F] @ js '' Failed to connect to Cerebro backend.'',
       output_innerText := js ''42'',
       fetched := [ask_request (js ''what is 6 * 7?'')],
       console_error := [TypeError ''Cannot read properties of undefined'']\<rparr> \<and>
   hidden (askCerebro host_no_mode fresh_page)"
proof -
  let ?s = "begin_request (trim (query_value fresh_page)) fresh_page"
  have f: "fetch host_no_mode (ask_request (trim (query_value fresh_page))) =
      Inr \<lparr>json = Inr (Obj no_mode_body)\<rparr>"
    by (simp add: host_no_mode_def answering_def)
  have "response_text (Obj no_mode_body) = Inr (js ''42'')"
    using no_mode_fields(2) by (rule response_text_Str)
  moreover have "mode_text (toUpperCase host_no_mode) (Obj no_mode_body) =
      Inl (TypeError ''Cannot read properties of undefined'')"
    using no_mode_fields(3) by (simp add: mode_text_def and_then_def)
  ultimately have "render (toUpperCase host_no_mode) (Obj no_mode_body) ?s =
      Throw (TypeError ''Cannot read properties of undefined'') (?s\<lparr>output_innerText := js ''42''\<rparr>)"
    by (simp add: render_defs)
  then have "askCerebro host_no_mode fresh_page =
      catch_clause (TypeError ''Cannot read properties of undefined'')
        (?s\<lparr>output_innerText := js ''42''\<rparr>)"
    using no_mode_fields(1)
    by (simp add: run_parsed [OF fresh_query_nonempty f] on_data_falsy try_catch_def)
  then have run: "askCerebro host_no_mode fresh_page =
      fresh_page\<lparr>status_innerText := [0x26A0, 0xFE0F] @ js '' Failed to connect to Cerebro backend.'',
        output_innerText := js ''42'',
        fetched := [ask_request (js ''what is 6 * 7?'')],
        console_error := [TypeError ''Cannot read properties of undefined'']\<rparr>"
    by (simp add: catch_clause_def begin_request_def fresh_query failed_to_connect_def
        warning_sign_def)
       (simp add: fresh_page_def classList_add_def js_def)
  then have "hidden (askCerebro host_no_mode fresh_page)"
    using fresh_hidden by (simp add: hidden_def)
  with run f no_mode_fields(1,3) show ?thesis
    by blast
qed

end
